theory Spec2Isabelle
  imports Complex_Main "HOL-Library.Word" "HOL-Library.AList"
begin

section \<open>Conventions of the embedding\<close>

text \<open>
  A JavaScript number is modelled as a \<^typ>\<open>real\<close>: arithmetic is exact, the rounding of
  IEEE doubles is abstracted away, and the sentinels \<open>Infinity\<close> / \<open>-Infinity\<close> that start
  a running minimum or maximum are written as a fold that starts on the first element
  (the loops that use them are guarded by a non-emptiness test in the source).

  A JavaScript string that is displayed (a label, a description) is a list of UTF-16 code
  units, \<^typ>\<open>16 word list\<close>; identifiers (aliases, ids) and error messages, which are
  only compared and concatenated, are HOL strings.

  An optional field (\<open>technology?: string\<close>) is an \<^typ>\<open>'a option\<close>; an exception is a value
  on the left of a sum.
\<close>

type_synonym utf16 = "16 word list"

section \<open>Text metrics (\<open>src/styles.ts\<close>)\<close>

subsection \<open>The string iterator\<close>

definition isHighSurrogate :: "16 word \<Rightarrow> bool" where
  "isHighSurrogate u \<longleftrightarrow> 0xD800 \<le> u \<and> u \<le> 0xDBFF"

definition isLowSurrogate :: "16 word \<Rightarrow> bool" where
  "isLowSurrogate u \<longleftrightarrow> 0xDC00 \<le> u \<and> u \<le> 0xDFFF"

text \<open>
  \<open>for (const char of text)\<close> walks the string by code points: a high surrogate followed
  by a low surrogate is handed out as one two-unit string, every other code unit alone.
\<close>

fun stringIterator :: "utf16 \<Rightarrow> utf16 list" where
  "stringIterator [] = []"
| "stringIterator [u] = [[u]]"
| "stringIterator (u # v # rest) =
     (if isHighSurrogate u \<and> isLowSurrogate v
      then [u, v] # stringIterator rest
      else [u] # stringIterator (v # rest))"

subsection \<open>isFullWidth, getDisplayWidth, estimateTextWidth\<close>

text \<open>
  \<open>char.charCodeAt(0)\<close> reads the first code unit of \<open>char\<close>; on the empty string it is
  \<open>NaN\<close> and every comparison is false.
\<close>

definition isFullWidth :: "utf16 \<Rightarrow> bool" where
  "isFullWidth char =
     (case char of
        [] \<Rightarrow> False
      | code # _ \<Rightarrow>
          (code \<ge> 0x1100 \<and> code \<le> 0x11ff) \<or>
          (code \<ge> 0x3000 \<and> code \<le> 0x303f) \<or>
          (code \<ge> 0x3040 \<and> code \<le> 0x309f) \<or>
          (code \<ge> 0x30a0 \<and> code \<le> 0x30ff) \<or>
          (code \<ge> 0x3130 \<and> code \<le> 0x318f) \<or>
          (code \<ge> 0x4e00 \<and> code \<le> 0x9fff) \<or>
          (code \<ge> 0xac00 \<and> code \<le> 0xd7af) \<or>
          (code \<ge> 0xff00 \<and> code \<le> 0xffef))"

definition charColumns :: "utf16 \<Rightarrow> nat" where
  "charColumns char = (if isFullWidth char then 2 else 1)"

definition getDisplayWidth :: "utf16 \<Rightarrow> nat" where
  "getDisplayWidth text = fold (\<lambda>char width. width + charColumns char) (stringIterator text) 0"

definition widthRatio :: "real \<Rightarrow> real" where
  "widthRatio fontWeight =
     (if fontWeight \<ge> 600 then 0.58 else if fontWeight \<ge> 500 then 0.55 else 0.52)"

definition estimateTextWidth :: "utf16 \<Rightarrow> real \<Rightarrow> real \<Rightarrow> real" where
  "estimateTextWidth text fontSize fontWeight =
     real (getDisplayWidth text) * fontSize * widthRatio fontWeight"

text \<open>The constants \<open>FONT_SIZES\<close> and \<open>FONT_WEIGHTS\<close>.\<close>

definition FONT_SIZES_nodeLabel :: real where "FONT_SIZES_nodeLabel = 13"
definition FONT_SIZES_edgeLabel :: real where "FONT_SIZES_edgeLabel = 11"
definition FONT_WEIGHTS_nodeLabel :: real where "FONT_WEIGHTS_nodeLabel = 500"
definition FONT_WEIGHTS_edgeLabel :: real where "FONT_WEIGHTS_edgeLabel = 400"

text \<open>
  The ranges the specification calls double width: the first code unit of the glyph lies in
  one of the eight ranges that \<open>isFullWidth\<close> lists.
\<close>

definition inListedRange :: "16 word \<Rightarrow> bool" where
  "inListedRange code \<longleftrightarrow>
     code \<in> {0x1100..0x11ff} \<union> {0x3000..0x303f} \<union> {0x3040..0x309f} \<union> {0x30a0..0x30ff}
          \<union> {0x3130..0x318f} \<union> {0x4e00..0x9fff} \<union> {0xac00..0xd7af} \<union> {0xff00..0xffef}"

text \<open>U+1F600 (grinning face, in the emoticons block) as UTF-16: the pair D83D DE00.\<close>

definition grinningFace :: utf16 where
  "grinningFace = [0xD83D, 0xDE00]"

section \<open>The layout adapter (\<open>src/dagre-adapter.ts\<close>)\<close>

record Point =
  px :: real
  py :: real

text \<open>The shape descriptor \<open>{cx, cy, hw, hh}\<close> handed to the clipping step.\<close>

record Shape =
  cx :: real
  cy :: real
  hw :: real
  hh :: real

text \<open>
  Modelled from the spec: \<open>centerToTopLeft\<close> of \<open>src/dagre-adapter.ts\<close>, a file of the
  repository whose text is missing. The specification gives it as exact arithmetic,
  \<open>x = cx - w/2\<close>, \<open>y = cy - h/2\<close>.
\<close>

definition centerToTopLeft :: "real \<Rightarrow> real \<Rightarrow> real \<Rightarrow> real \<Rightarrow> Point" where
  "centerToTopLeft centerX centerY w h = \<lparr>px = centerX - w / 2, py = centerY - h / 2\<rparr>"

text \<open>
  Modelled from the spec: \<open>snapToOrthogonal\<close> of \<open>src/dagre-adapter.ts\<close> (the text of the
  file is missing). The specification asks for a sequence in which consecutive points
  differ in one coordinate only, obtained by inserting at most one intermediate point per
  original segment, with the start and the end point kept and paths of 0 or 1 points
  unchanged. The flag chooses the bend: vertical first goes to \<open>(p.x, q.y)\<close>, horizontal
  first to \<open>(q.x, p.y)\<close>.
\<close>

definition bendPoint :: "Point \<Rightarrow> Point \<Rightarrow> bool \<Rightarrow> Point" where
  "bendPoint p q verticalFirst =
     (if verticalFirst then \<lparr>px = px p, py = py q\<rparr> else \<lparr>px = px q, py = py p\<rparr>)"

fun snapToOrthogonal :: "Point list \<Rightarrow> bool \<Rightarrow> Point list" where
  "snapToOrthogonal [] verticalFirst = []"
| "snapToOrthogonal [p] verticalFirst = [p]"
| "snapToOrthogonal (p # q # rest) verticalFirst =
     (if px p = px q \<or> py p = py q
      then p # snapToOrthogonal (q # rest) verticalFirst
      else p # bendPoint p q verticalFirst # snapToOrthogonal (q # rest) verticalFirst)"

text \<open>
  Modelled from the spec: \<open>clipEndpointsToNodes\<close> of \<open>src/dagre-adapter.ts\<close> (the text
  of the file is missing). The specification: given an optional source shape
  \<open>{center, halfWidth, halfHeight}\<close> and an optional target shape, the first point of the
  path is replaced by the point where the path exits the rectangle of the source shape, if
  the path starts inside that rectangle (its centre included); symmetrically the last point
  is replaced by the point where the path enters the target rectangle; an omitted shape
  leaves its end of the path unmodified.

  The path exits the rectangle on its first segment that leads from a point inside to a
  point outside, at the point where that segment meets the boundary. Only the first point
  is replaced, the points after it stay. A path that never leaves the rectangle has no exit
  point and keeps its first point. The target end is the source end of the reversed path.
\<close>

definition insideShape :: "Shape \<Rightarrow> Point \<Rightarrow> bool" where
  "insideShape s p \<longleftrightarrow> \<bar>px p - cx s\<bar> \<le> hw s \<and> \<bar>py p - cy s\<bar> \<le> hh s"

text \<open>
  Along one axis: the parameter at which a point moving from \<open>a\<close> by \<open>d\<close> per unit reaches
  the side of the interval \<open>[c - h, c + h]\<close> it moves towards; none when it does not move.
\<close>

definition exitParam :: "real \<Rightarrow> real \<Rightarrow> real \<Rightarrow> real \<Rightarrow> real option" where
  "exitParam c h a d =
     (if d > 0 then Some ((c + h - a) / d)
      else if d < 0 then Some ((c - h - a) / d)
      else None)"

text \<open>Where the segment from \<open>p\<close> (inside) to \<open>q\<close> (outside) meets the boundary.\<close>

definition exitPoint :: "Shape \<Rightarrow> Point \<Rightarrow> Point \<Rightarrow> Point" where
  "exitPoint s p q =
     (let dx = px q - px p; dy = py q - py p in
      case (exitParam (cx s) (hw s) (px p) dx, exitParam (cy s) (hh s) (py p) dy) of
        (None, None) \<Rightarrow> p
      | (Some tx, None) \<Rightarrow> \<lparr>px = px p + tx * dx, py = py p\<rparr>
      | (None, Some ty) \<Rightarrow> \<lparr>px = px p, py = py p + ty * dy\<rparr>
      | (Some tx, Some ty) \<Rightarrow> \<lparr>px = px p + min tx ty * dx, py = py p + min tx ty * dy\<rparr>)"

text \<open>The exit point of a path whose first point is inside the rectangle.\<close>

fun pathExit :: "Shape \<Rightarrow> Point list \<Rightarrow> Point option" where
  "pathExit s (p # q # rest) =
     (if insideShape s q then pathExit s (q # rest) else Some (exitPoint s p q))"
| "pathExit s points = None"

definition clipStart :: "Point list \<Rightarrow> Shape option \<Rightarrow> Point list" where
  "clipStart points shape =
     (case shape of
        None \<Rightarrow> points
      | Some s \<Rightarrow>
          (case points of
             [] \<Rightarrow> points
           | p # rest \<Rightarrow>
               if insideShape s p
               then (case pathExit s points of None \<Rightarrow> points | Some e \<Rightarrow> e # rest)
               else points))"

definition clipEndpointsToNodes :: "Point list \<Rightarrow> Shape option \<Rightarrow> Shape option \<Rightarrow> Point list" where
  "clipEndpointsToNodes points sourceNode targetNode =
     rev (clipStart (rev (clipStart points sourceNode)) targetNode)"

section \<open>The graph library (\<open>@dagrejs/dagre\<close>, an external dependency)\<close>

datatype ArchiMateLayer =
  business | application | technology | strategy | motivation | physical | implementation

text \<open>
  A node label is the object given to \<open>setNode\<close>; an edge label the object given to
  \<open>setEdge\<close>, its absent properties \<open>None\<close> (\<open>_layerEdge\<close>: \<open>False\<close>).
\<close>

record NodeLabel =
  nl_width :: real
  nl_height :: real
  nl_layer :: "ArchiMateLayer option"

record EdgeLabel =
  el_index :: "nat option"
  el_label :: "utf16 option"
  el_width :: "real option"
  el_height :: "real option"
  el_labelpos :: "string option"
  el_minlen :: "nat option"
  el_weight :: "nat option"
  el_layerEdge :: bool

record GraphLabel =
  rankdir :: string
  acyclicer :: string
  nodesep :: real
  ranksep :: real
  marginx :: real
  marginy :: real

text \<open>
  \<open>new dagre.graphlib.Graph({ directed: true })\<close>: a directed graph that is not a
  multigraph. Nodes and edges are kept in insertion order; an edge is keyed by its ordered
  pair of end points. A node created by \<open>setEdge\<close> alone has no label.
\<close>

record Graph =
  g_label :: GraphLabel
  g_nodes :: "(string \<times> NodeLabel option) list"
  g_edges :: "((string \<times> string) \<times> EdgeLabel) list"

definition newGraph :: "GraphLabel \<Rightarrow> Graph" where
  "newGraph l = \<lparr>g_label = l, g_nodes = [], g_edges = []\<rparr>"

text \<open>\<open>g.setNode(v, value)\<close>: sets the label of \<open>v\<close>, creating the node when it is new.\<close>

definition setNode :: "Graph \<Rightarrow> string \<Rightarrow> NodeLabel \<Rightarrow> Graph" where
  "setNode g v val = g\<lparr>g_nodes := AList.update v (Some val) (g_nodes g)\<rparr>"

text \<open>\<open>setNode(v)\<close> without a value, as \<open>setEdge\<close> calls it: a no-op on an existing node.\<close>

definition ensureNode :: "Graph \<Rightarrow> string \<Rightarrow> Graph" where
  "ensureNode g v =
     (if map_of (g_nodes g) v = None then g\<lparr>g_nodes := g_nodes g @ [(v, None)]\<rparr> else g)"

text \<open>
  \<open>g.setEdge(v, w, value)\<close>: when the edge \<open>(v, w)\<close> exists its label is replaced, in
  place; otherwise both end points are created if need be and the edge is added.
\<close>

definition setEdge :: "Graph \<Rightarrow> string \<Rightarrow> string \<Rightarrow> EdgeLabel \<Rightarrow> Graph" where
  "setEdge g v w val =
     (if map_of (g_edges g) (v, w) \<noteq> None
      then g\<lparr>g_edges := AList.update (v, w) val (g_edges g)\<rparr>
      else (ensureNode (ensureNode g v) w)\<lparr>g_edges := g_edges g @ [((v, w), val)]\<rparr>)"

text \<open>\<open>g.node(v)\<close>: the label of \<open>v\<close>, \<open>undefined\<close> for an unknown or unlabelled node.\<close>

definition node :: "Graph \<Rightarrow> string \<Rightarrow> NodeLabel option" where
  "node g v = (case map_of (g_nodes g) v of Some (Some l) \<Rightarrow> Some l | _ \<Rightarrow> None)"

text \<open>
  \<open>dagre.layout(g)\<close> is not part of the repository. It either throws, with a message, or
  writes geometry into the labels of \<open>g\<close>: \<open>x\<close> and \<open>y\<close> (a centre) into every node label,
  \<open>points\<close> into edge labels, \<open>width\<close> and \<open>height\<close> into the graph label. It is a
  parameter of the layout functions: a function from the graph that was built to the
  message or the geometry.
\<close>

record Geometry =
  node_x :: "string \<Rightarrow> real"
  node_y :: "string \<Rightarrow> real"
  edge_points :: "string \<times> string \<Rightarrow> Point list option"
  graph_width :: "real option"
  graph_height :: "real option"

type_synonym dagre = "Graph \<Rightarrow> string + Geometry"

text \<open>
  What the layout functions throw: \<open>new Error(message)\<close>, or the \<open>TypeError\<close> of a
  property read on \<open>undefined\<close>.
\<close>

datatype LayoutError = Error string | TypeError

fun collect :: "('e + 'a) list \<Rightarrow> 'e + 'a list" where
  "collect [] = Inr []"
| "collect (r # rs) =
     (case r of
        Inl e \<Rightarrow> Inl e
      | Inr a \<Rightarrow> (case collect rs of Inl e \<Rightarrow> Inl e | Inr as \<Rightarrow> Inr (a # as)))"

fun foldE :: "('a \<Rightarrow> 's \<Rightarrow> 'e + 's) \<Rightarrow> 'a list \<Rightarrow> 's \<Rightarrow> 'e + 's" where
  "foldE f [] s = Inr s"
| "foldE f (x # xs) s = (case f x s of Inl e \<Rightarrow> Inl e | Inr s' \<Rightarrow> foldE f xs s')"

text \<open>The shape of a node after layout, \<open>null\<close> when \<open>g.node\<close> gave nothing.\<close>

definition nodeShape :: "Graph \<Rightarrow> Geometry \<Rightarrow> string \<Rightarrow> Shape option" where
  "nodeShape g geo v =
     (case node g v of
        None \<Rightarrow> None
      | Some n \<Rightarrow> Some \<lparr>cx = node_x geo v, cy = node_y geo v,
                        hw = nl_width n / 2, hh = nl_height n / 2\<rparr>)"

section \<open>C4 diagrams (\<open>src/c4/types.ts\<close>)\<close>

datatype C4DiagramType = C4Context | C4Container | C4Component | C4Dynamic | C4Deployment

datatype C4ElementKind =
  Person | System | Container | ContainerDb | ContainerQueue
| Component | ComponentDb | ComponentQueue | Deployment_Node

datatype C4BoundaryKind =
  Boundary | System_Boundary | Container_Boundary | Enterprise_Boundary
| Deployment_Node_Boundary

datatype C4Direction = D | U | L | R | Back

record C4Element =
  e_kind :: C4ElementKind
  e_alias :: string
  e_label :: utf16
  e_description :: "utf16 option"
  e_technology :: "utf16 option"
  e_external :: bool
  e_parentBoundary :: "string option"

datatype C4Boundary =
  C4Boundary (b_alias: string) (b_label: utf16) (b_kind: C4BoundaryKind)
    (b_elements: "C4Element list") (b_childBoundaries: "C4Boundary list")
    (b_parentBoundary: "string option")

record C4Relationship =
  r_from :: string
  r_to :: string
  r_label :: utf16
  r_technology :: "utf16 option"
  r_direction :: "C4Direction option"

record C4Diagram =
  d_type :: C4DiagramType
  d_title :: "utf16 option"
  d_elements :: "C4Element list"
  d_relationships :: "C4Relationship list"
  d_boundaries :: "C4Boundary list"

record PositionedC4Element =
  pe_kind :: C4ElementKind
  pe_alias :: string
  pe_label :: utf16
  pe_description :: "utf16 option"
  pe_technology :: "utf16 option"
  pe_external :: bool
  pe_x :: real
  pe_y :: real
  pe_width :: real
  pe_height :: real

record PositionedC4Relationship =
  pr_from :: string
  pr_to :: string
  pr_label :: utf16
  pr_technology :: "utf16 option"
  pr_points :: "Point list"

datatype PositionedC4Boundary =
  PositionedC4Boundary (pb_alias: string) (pb_label: utf16) (pb_kind: C4BoundaryKind)
    (pb_x: real) (pb_y: real) (pb_width: real) (pb_height: real)
    (pb_children: "PositionedC4Boundary list")

record PositionedC4Diagram =
  pd_width :: real
  pd_height :: real
  pd_title :: "utf16 option"
  pd_elements :: "PositionedC4Element list"
  pd_relationships :: "PositionedC4Relationship list"
  pd_boundaries :: "PositionedC4Boundary list"

section \<open>The C4 layout (\<open>src/c4/layout.ts\<close>)\<close>

text \<open>The layout constants \<open>C4\<close>.\<close>

definition C4_padding :: real where "C4_padding = 40"
definition C4_boxPadX :: real where "C4_boxPadX = 16"
definition C4_boxPadY :: real where "C4_boxPadY = 12"
definition C4_personWidth :: real where "C4_personWidth = 160"
definition C4_personHeight :: real where "C4_personHeight = 180"
definition C4_minBoxWidth :: real where "C4_minBoxWidth = 160"
definition C4_minBoxHeight :: real where "C4_minBoxHeight = 80"
definition C4_lineHeight :: real where "C4_lineHeight = 18"
definition C4_boundaryPadding :: real where "C4_boundaryPadding = 30"
definition C4_boundaryHeaderHeight :: real where "C4_boundaryHeaderHeight = 28"
definition C4_nodeSpacing :: real where "C4_nodeSpacing = 60"
definition C4_layerSpacing :: real where "C4_layerSpacing = 80"
definition C4_descFontSize :: real where "C4_descFontSize = 11"
definition C4_descFontWeight :: real where "C4_descFontWeight = 400"
definition C4_techFontSize :: real where "C4_techFontSize = 10"
definition C4_techFontWeight :: real where "C4_techFontWeight = 400"

record Size =
  s_width :: real
  s_height :: real

text \<open>
  \<open>if (element.technology)\<close> holds for a string that is present and not empty.
\<close>

definition truthy :: "utf16 option \<Rightarrow> bool" where
  "truthy s = (case s of None \<Rightarrow> False | Some t \<Rightarrow> t \<noteq> [])"

text \<open>The template \<open>`[${element.technology}]`\<close>: U+005B, the text, U+005D.\<close>

definition bracketed :: "utf16 \<Rightarrow> utf16" where
  "bracketed t = [0x5B] @ t @ [0x5D]"

definition calculateElementSize :: "C4Element \<Rightarrow> Size" where
  "calculateElementSize element =
     (if e_kind element = Person
      then \<lparr>s_width = C4_personWidth, s_height = C4_personHeight\<rparr>
      else
        let labelW = estimateTextWidth (e_label element) FONT_SIZES_nodeLabel FONT_WEIGHTS_nodeLabel;
            maxTextW = labelW;
            maxTextW =
              (if truthy (e_technology element)
               then max maxTextW
                      (estimateTextWidth (bracketed (the (e_technology element)))
                         C4_techFontSize C4_techFontWeight)
               else maxTextW);
            maxTextW =
              (if truthy (e_description element)
               then max maxTextW
                      (estimateTextWidth (the (e_description element))
                         C4_descFontSize C4_descFontWeight)
               else maxTextW);
            width = max C4_minBoxWidth (maxTextW + C4_boxPadX * 2);
            textLines = (1::nat);
            textLines = (if truthy (e_technology element) then textLines + 1 else textLines);
            textLines = (if truthy (e_description element) then textLines + 1 else textLines);
            height = max C4_minBoxHeight (real textLines * C4_lineHeight + C4_boxPadY * 2)
        in \<lparr>s_width = width, s_height = height\<rparr>)"

text \<open>
  The sizing rule in the words of the specification: the text lines of a box, each with the
  font it is measured in, the widest estimate, the number of lines.
\<close>

definition textLines :: "C4Element \<Rightarrow> (utf16 \<times> real \<times> real) list" where
  "textLines element =
     [(e_label element, FONT_SIZES_nodeLabel, FONT_WEIGHTS_nodeLabel)]
     @ (case e_technology element of
          None \<Rightarrow> []
        | Some t \<Rightarrow> if t = [] then [] else [(bracketed t, C4_techFontSize, C4_techFontWeight)])
     @ (case e_description element of
          None \<Rightarrow> []
        | Some t \<Rightarrow> if t = [] then [] else [(t, C4_descFontSize, C4_descFontWeight)])"

definition widestLine :: "C4Element \<Rightarrow> real" where
  "widestLine element =
     Max (set (map (\<lambda>(t, fontSize, fontWeight). estimateTextWidth t fontSize fontWeight)
                 (textLines element)))"

subsection \<open>Boundaries\<close>

record Rect =
  rc_x :: real
  rc_y :: real
  rc_right :: real
  rc_bottom :: real

text \<open>
  The rectangles a boundary wraps: its direct elements that have a position, then its child
  boundaries, already laid out.
\<close>

definition elementRects :: "C4Element list \<Rightarrow> (string \<rightharpoonup> PositionedC4Element) \<Rightarrow> Rect list" where
  "elementRects elements elementLookup =
     concat (map (\<lambda>element.
        case elementLookup (e_alias element) of
          None \<Rightarrow> []
        | Some pos \<Rightarrow> [\<lparr>rc_x = pe_x pos, rc_y = pe_y pos,
                        rc_right = pe_x pos + pe_width pos,
                        rc_bottom = pe_y pos + pe_height pos\<rparr>]) elements)"

definition boundaryRect :: "PositionedC4Boundary \<Rightarrow> Rect" where
  "boundaryRect child =
     \<lparr>rc_x = pb_x child, rc_y = pb_y child,
      rc_right = pb_x child + pb_width child,
      rc_bottom = pb_y child + pb_height child\<rparr>"

text \<open>
  The bounding box of a non-empty list of rectangles; on the first rectangle
  \<open>Math.min(Infinity, rect.x)\<close> is \<open>rect.x\<close>, and so on.
\<close>

definition wrapRects ::
  "string \<Rightarrow> utf16 \<Rightarrow> C4BoundaryKind \<Rightarrow> PositionedC4Boundary list \<Rightarrow> Rect list
     \<Rightarrow> PositionedC4Boundary" where
  "wrapRects a l k children rects =
     (case rects of
        [] \<Rightarrow> PositionedC4Boundary a l k 0 0 C4_minBoxWidth C4_minBoxHeight children
      | rect # rest \<Rightarrow>
          let minX = fold (\<lambda>rect minX. min minX (rc_x rect)) rest (rc_x rect);
              minY = fold (\<lambda>rect minY. min minY (rc_y rect)) rest (rc_y rect);
              maxX = fold (\<lambda>rect maxX. max maxX (rc_right rect)) rest (rc_right rect);
              maxY = fold (\<lambda>rect maxY. max maxY (rc_bottom rect)) rest (rc_bottom rect)
          in PositionedC4Boundary a l k
               (minX - C4_boundaryPadding)
               (minY - C4_boundaryPadding - C4_boundaryHeaderHeight)
               ((maxX - minX) + C4_boundaryPadding * 2)
               ((maxY - minY) + C4_boundaryPadding * 2 + C4_boundaryHeaderHeight)
               children)"

fun layoutBoundary :: "(string \<rightharpoonup> PositionedC4Element) \<Rightarrow> C4Boundary \<Rightarrow> PositionedC4Boundary" where
  "layoutBoundary elementLookup (C4Boundary a l k elements childBoundaries parent) =
     (let children = map (layoutBoundary elementLookup) childBoundaries;
          rects = elementRects elements elementLookup @ map boundaryRect children
      in wrapRects a l k children rects)"

definition layoutBoundaries ::
  "C4Boundary list \<Rightarrow> (string \<rightharpoonup> PositionedC4Element) \<Rightarrow> PositionedC4Boundary list" where
  "layoutBoundaries boundaries elementLookup = map (layoutBoundary elementLookup) boundaries"

fun flattenBoundary :: "PositionedC4Boundary \<Rightarrow> PositionedC4Boundary list" where
  "flattenBoundary (PositionedC4Boundary a l k x y w h children) =
     PositionedC4Boundary a l k x y w h children # concat (map flattenBoundary children)"

definition flattenBoundaries :: "PositionedC4Boundary list \<Rightarrow> PositionedC4Boundary list" where
  "flattenBoundaries boundaries = concat (map flattenBoundary boundaries)"

subsection \<open>layoutC4Diagram\<close>

definition C4_graphLabel :: GraphLabel where
  "C4_graphLabel =
     \<lparr>rankdir = ''TB'', acyclicer = ''greedy'', nodesep = C4_nodeSpacing,
      ranksep = C4_layerSpacing, marginx = C4_padding, marginy = C4_padding\<rparr>"

text \<open>Step 1: the map \<open>elementSizes\<close>, keyed by alias (a later element replaces an earlier one).\<close>

definition c4ElementSizes :: "C4Element list \<Rightarrow> (string \<times> Size) list" where
  "c4ElementSizes elements =
     fold (\<lambda>element elementSizes.
             AList.update (e_alias element) (calculateElementSize element) elementSizes)
          elements []"

text \<open>Step 2: the nodes, then one \<open>setEdge\<close> per relationship, labelled with its index.\<close>

definition c4AddNode :: "(string \<times> Size) list \<Rightarrow> C4Element \<Rightarrow> Graph \<Rightarrow> LayoutError + Graph" where
  "c4AddNode elementSizes element g =
     (case map_of elementSizes (e_alias element) of
        None \<Rightarrow> Inl TypeError
      | Some sz \<Rightarrow>
          Inr (setNode g (e_alias element)
                 \<lparr>nl_width = s_width sz, nl_height = s_height sz, nl_layer = None\<rparr>))"

definition c4LabelText :: "C4Relationship \<Rightarrow> utf16" where
  "c4LabelText rel =
     (if truthy (r_technology rel)
      then r_label rel @ [0x20] @ bracketed (the (r_technology rel))
      else r_label rel)"

definition c4EdgeLabel :: "nat \<Rightarrow> C4Relationship \<Rightarrow> EdgeLabel" where
  "c4EdgeLabel i rel =
     \<lparr>el_index = Some i,
      el_label = Some (c4LabelText rel),
      el_width = Some (estimateTextWidth (c4LabelText rel) FONT_SIZES_edgeLabel FONT_WEIGHTS_edgeLabel + 8),
      el_height = Some (FONT_SIZES_edgeLabel + 6),
      el_labelpos = Some ''c'',
      el_minlen = None, el_weight = None, el_layerEdge = False\<rparr>"

definition c4AddEdges :: "C4Relationship list \<Rightarrow> Graph \<Rightarrow> Graph" where
  "c4AddEdges relationships g =
     fold (\<lambda>(i, rel) g. setEdge g (r_from rel) (r_to rel) (c4EdgeLabel i rel))
          (enumerate 0 relationships) g"

definition buildC4Graph :: "C4Diagram \<Rightarrow> LayoutError + Graph" where
  "buildC4Graph diagram =
     (case foldE (c4AddNode (c4ElementSizes (d_elements diagram))) (d_elements diagram)
             (newGraph C4_graphLabel) of
        Inl e \<Rightarrow> Inl e
      | Inr g \<Rightarrow> Inr (c4AddEdges (d_relationships diagram) g))"

text \<open>
  Step 4: an element at the top-left corner of its node. \<open>dagreNode.width ?? size.width\<close>
  is \<open>dagreNode.width\<close>, which \<open>setNode\<close> has set.
\<close>

definition c4PositionElement :: "Graph \<Rightarrow> Geometry \<Rightarrow> C4Element \<Rightarrow> LayoutError + PositionedC4Element" where
  "c4PositionElement g geo element =
     (case node g (e_alias element) of
        None \<Rightarrow> Inl TypeError
      | Some dagreNode \<Rightarrow>
          let topLeft = centerToTopLeft (node_x geo (e_alias element)) (node_y geo (e_alias element))
                          (nl_width dagreNode) (nl_height dagreNode)
          in Inr \<lparr>pe_kind = e_kind element, pe_alias = e_alias element,
                  pe_label = e_label element, pe_description = e_description element,
                  pe_technology = e_technology element, pe_external = e_external element,
                  pe_x = px topLeft, pe_y = py topLeft,
                  pe_width = nl_width dagreNode, pe_height = nl_height dagreNode\<rparr>)"

definition c4ElementLookup :: "PositionedC4Element list \<Rightarrow> (string \<rightharpoonup> PositionedC4Element)" where
  "c4ElementLookup positionedElements =
     fold (\<lambda>el elementLookup. elementLookup(pe_alias el \<mapsto> el)) positionedElements Map.empty"

text \<open>Step 5: one positioned relationship per edge of the graph, in the order of \<open>g.edges()\<close>.\<close>

definition edgePath :: "Graph \<Rightarrow> Geometry \<Rightarrow> string \<Rightarrow> string \<Rightarrow> Point list" where
  "edgePath g geo v w =
     (let rawPoints = (case edge_points geo (v, w) of None \<Rightarrow> [] | Some ps \<Rightarrow> ps);
          orthoPoints = snapToOrthogonal rawPoints True
      in clipEndpointsToNodes orthoPoints (nodeShape g geo v) (nodeShape g geo w))"

definition c4PositionRelationship ::
  "C4Relationship list \<Rightarrow> Graph \<Rightarrow> Geometry \<Rightarrow> (string \<times> string) \<times> EdgeLabel
     \<Rightarrow> LayoutError + PositionedC4Relationship" where
  "c4PositionRelationship relationships g geo edge =
     (case edge of ((v, w), dagreEdge) \<Rightarrow>
        (case el_index dagreEdge of
           None \<Rightarrow> Inl TypeError
         | Some i \<Rightarrow>
             if i < length relationships
             then let rel = relationships ! i
                  in Inr \<lparr>pr_from = r_from rel, pr_to = r_to rel, pr_label = r_label rel,
                          pr_technology = r_technology rel, pr_points = edgePath g geo v w\<rparr>
             else Inl TypeError))"

text \<open>Step 7: the size of the diagram.\<close>

definition c4CanvasWidth :: "Geometry \<Rightarrow> PositionedC4Boundary list \<Rightarrow> real" where
  "c4CanvasWidth geo positionedBoundaries =
     fold (\<lambda>b maxW. max maxW (pb_x b + pb_width b + C4_padding))
          (flattenBoundaries positionedBoundaries)
          (case graph_width geo of None \<Rightarrow> 600 | Some w \<Rightarrow> w)"

definition c4CanvasHeight :: "Geometry \<Rightarrow> PositionedC4Boundary list \<Rightarrow> real" where
  "c4CanvasHeight geo positionedBoundaries =
     fold (\<lambda>b maxH. max maxH (pb_y b + pb_height b + C4_padding))
          (flattenBoundaries positionedBoundaries)
          (case graph_height geo of None \<Rightarrow> 400 | Some h \<Rightarrow> h)"

definition layoutC4Diagram :: "dagre \<Rightarrow> C4Diagram \<Rightarrow> LayoutError + PositionedC4Diagram" where
  "layoutC4Diagram dagre_layout diagram =
     (if length (d_elements diagram) = 0
      then Inr \<lparr>pd_width = 0, pd_height = 0, pd_title = None, pd_elements = [],
                pd_relationships = [], pd_boundaries = []\<rparr>
      else
        case buildC4Graph diagram of
          Inl e \<Rightarrow> Inl e
        | Inr g \<Rightarrow>
           (case dagre_layout g of
              Inl message \<Rightarrow> Inl (Error (''Dagre layout failed (C4 diagram): '' @ message))
            | Inr geo \<Rightarrow>
               (case collect (map (c4PositionElement g geo) (d_elements diagram)) of
                  Inl e \<Rightarrow> Inl e
                | Inr positionedElements \<Rightarrow>
                   (case collect (map (c4PositionRelationship (d_relationships diagram) g geo)
                                    (g_edges g)) of
                      Inl e \<Rightarrow> Inl e
                    | Inr relationships \<Rightarrow>
                        let positionedBoundaries =
                              layoutBoundaries (d_boundaries diagram)
                                (c4ElementLookup positionedElements)
                        in Inr \<lparr>pd_width = c4CanvasWidth geo positionedBoundaries,
                                pd_height = c4CanvasHeight geo positionedBoundaries,
                                pd_title = d_title diagram,
                                pd_elements = positionedElements,
                                pd_relationships = relationships,
                                pd_boundaries = positionedBoundaries\<rparr>))))"

section \<open>ArchiMate diagrams (\<open>src/archimate/types.ts\<close>)\<close>

datatype ArchiMateRelationshipType =
  composition | aggregation | assignment | realization | serving | access
| influence | triggering | flow | specialization | association

text \<open>
  The element type is one of the string literals of \<open>ArchiMateElementType\<close>; the layout
  only measures it as text.
\<close>

record ArchiMateElement =
  a_id :: string
  a_label :: utf16
  a_type :: utf16
  a_layer :: ArchiMateLayer

record ArchiMateRelationship =
  ar_source :: string
  ar_target :: string
  ar_type :: ArchiMateRelationshipType
  ar_label :: "utf16 option"

text \<open>
  \<open>layers\<close> is only read by key, a partial map; \<open>elements\<close> is iterated, in insertion
  order, a list of entries.
\<close>

record ArchiMateDiagram =
  ad_layers :: "ArchiMateLayer \<rightharpoonup> ArchiMateElement list"
  ad_elements :: "(string \<times> ArchiMateElement) list"
  ad_relationships :: "ArchiMateRelationship list"

record PositionedArchiMateLayer =
  pl_name :: ArchiMateLayer
  pl_x :: real
  pl_y :: real
  pl_width :: real
  pl_height :: real

record PositionedArchiMateElement =
  pa_id :: string
  pa_label :: utf16
  pa_type :: utf16
  pa_layer :: ArchiMateLayer
  pa_x :: real
  pa_y :: real
  pa_width :: real
  pa_height :: real

record PositionedArchiMateRelationship =
  par_source :: string
  par_target :: string
  par_type :: ArchiMateRelationshipType
  par_label :: "utf16 option"
  par_points :: "Point list"

record PositionedArchiMateDiagram =
  pad_width :: real
  pad_height :: real
  pad_layers :: "PositionedArchiMateLayer list"
  pad_elements :: "PositionedArchiMateElement list"
  pad_relationships :: "PositionedArchiMateRelationship list"

section \<open>The ArchiMate layout (\<open>src/archimate/renderer.ts\<close>)\<close>

definition LAYER_ORDER :: "ArchiMateLayer list" where
  "LAYER_ORDER = [strategy, motivation, business, application, technology, physical, implementation]"

definition ARCHIMATE_padding :: real where "ARCHIMATE_padding = 40"
definition ARCHIMATE_minElementWidth :: real where "ARCHIMATE_minElementWidth = 120"
definition ARCHIMATE_elementHeight :: real where "ARCHIMATE_elementHeight = 50"
definition ARCHIMATE_layerPadding :: real where "ARCHIMATE_layerPadding = 20"
definition ARCHIMATE_layerLabelHeight :: real where "ARCHIMATE_layerLabelHeight = 24"
definition ARCHIMATE_nodeSpacing :: real where "ARCHIMATE_nodeSpacing = 40"
definition ARCHIMATE_layerSpacing :: real where "ARCHIMATE_layerSpacing = 60"
definition ARCHIMATE_typeIndicatorSize :: real where "ARCHIMATE_typeIndicatorSize = 9"

definition ARCHIMATE_graphLabel :: GraphLabel where
  "ARCHIMATE_graphLabel =
     \<lparr>rankdir = ''TB'', acyclicer = ''greedy'', nodesep = ARCHIMATE_nodeSpacing,
      ranksep = ARCHIMATE_layerSpacing, marginx = ARCHIMATE_padding, marginy = ARCHIMATE_padding\<rparr>"

text \<open>Step 1: the layers that are present, in canonical order.\<close>

definition presentLayers :: "ArchiMateDiagram \<Rightarrow> ArchiMateLayer list" where
  "presentLayers diagram =
     filter (\<lambda>layer. case ad_layers diagram layer of None \<Rightarrow> False | Some es \<Rightarrow> length es > 0)
            LAYER_ORDER"

text \<open>Step 2: the box of an element.\<close>

definition archimateElementSize :: "ArchiMateElement \<Rightarrow> Size" where
  "archimateElementSize element =
     (let labelWidth = estimateTextWidth (a_label element) FONT_SIZES_nodeLabel FONT_WEIGHTS_nodeLabel;
          typeWidth = estimateTextWidth (a_type element) ARCHIMATE_typeIndicatorSize 400;
          width = max (max ARCHIMATE_minElementWidth (labelWidth + 24))
                      (typeWidth + labelWidth / 2 + 24)
      in \<lparr>s_width = width, s_height = ARCHIMATE_elementHeight\<rparr>)"

definition archimateElementSizes :: "(string \<times> ArchiMateElement) list \<Rightarrow> (string \<times> Size) list" where
  "archimateElementSizes elements =
     fold (\<lambda>(i, element) elementSizes. AList.update i (archimateElementSize element) elementSizes)
          elements []"

text \<open>Step 3: element nodes, the invisible edges between consecutive layers, the real edges.\<close>

definition archimateAddNode ::
  "(string \<times> Size) list \<Rightarrow> string \<times> ArchiMateElement \<Rightarrow> Graph \<Rightarrow> LayoutError + Graph" where
  "archimateAddNode elementSizes entry g =
     (case entry of (i, element) \<Rightarrow>
        (case map_of elementSizes i of
           None \<Rightarrow> Inl TypeError
         | Some sz \<Rightarrow>
             Inr (setNode g i \<lparr>nl_width = s_width sz, nl_height = s_height sz,
                               nl_layer = Some (a_layer element)\<rparr>)))"

definition layerEdgeLabel :: EdgeLabel where
  "layerEdgeLabel =
     \<lparr>el_index = None, el_label = None, el_width = None, el_height = None,
      el_labelpos = None, el_minlen = Some 2, el_weight = Some 10, el_layerEdge = True\<rparr>"

definition layerElements :: "ArchiMateDiagram \<Rightarrow> ArchiMateLayer \<Rightarrow> ArchiMateElement list" where
  "layerElements diagram layer = (case ad_layers diagram layer of None \<Rightarrow> [] | Some es \<Rightarrow> es)"

text \<open>
  The loop \<open>for (let i = 1; i < presentLayers.length; i++)\<close> visits the pairs of
  neighbours \<open>(presentLayers[i - 1], presentLayers[i])\<close>.
\<close>

definition addLayerEdges :: "ArchiMateDiagram \<Rightarrow> ArchiMateLayer list \<Rightarrow> Graph \<Rightarrow> Graph" where
  "addLayerEdges diagram layers g =
     fold (\<lambda>(upperLayer, lowerLayer) g.
             case (layerElements diagram upperLayer, layerElements diagram lowerLayer) of
               (upper # _, lower # _) \<Rightarrow> setEdge g (a_id upper) (a_id lower) layerEdgeLabel
             | _ \<Rightarrow> g)
          (zip layers (tl layers)) g"

definition archimateEdgeLabel :: "nat \<Rightarrow> ArchiMateRelationship \<Rightarrow> EdgeLabel" where
  "archimateEdgeLabel i rel =
     \<lparr>el_index = Some i,
      el_label = Some (case ar_label rel of None \<Rightarrow> [] | Some l \<Rightarrow> l),
      el_width = Some (if truthy (ar_label rel)
                       then estimateTextWidth (the (ar_label rel)) FONT_SIZES_edgeLabel FONT_WEIGHTS_edgeLabel + 8
                       else 0),
      el_height = Some (if truthy (ar_label rel) then FONT_SIZES_edgeLabel + 6 else 0),
      el_labelpos = Some ''c'',
      el_minlen = None, el_weight = None, el_layerEdge = False\<rparr>"

definition hasElement :: "ArchiMateDiagram \<Rightarrow> string \<Rightarrow> bool" where
  "hasElement diagram i \<longleftrightarrow> map_of (ad_elements diagram) i \<noteq> None"

definition addRelationshipEdges :: "ArchiMateDiagram \<Rightarrow> Graph \<Rightarrow> Graph" where
  "addRelationshipEdges diagram g =
     fold (\<lambda>(i, rel) g.
             if hasElement diagram (ar_source rel) \<and> hasElement diagram (ar_target rel)
             then setEdge g (ar_source rel) (ar_target rel) (archimateEdgeLabel i rel)
             else g)
          (enumerate 0 (ad_relationships diagram)) g"

definition buildArchiMateGraph :: "ArchiMateDiagram \<Rightarrow> LayoutError + Graph" where
  "buildArchiMateGraph diagram =
     (case foldE (archimateAddNode (archimateElementSizes (ad_elements diagram)))
             (ad_elements diagram) (newGraph ARCHIMATE_graphLabel) of
        Inl e \<Rightarrow> Inl e
      | Inr g \<Rightarrow>
          Inr (addRelationshipEdges diagram (addLayerEdges diagram (presentLayers diagram) g)))"

text \<open>Step 5: the elements that have a node, at its top-left corner.\<close>

definition archimatePositionElements ::
  "Graph \<Rightarrow> Geometry \<Rightarrow> (string \<times> ArchiMateElement) list \<Rightarrow> PositionedArchiMateElement list" where
  "archimatePositionElements g geo elements =
     concat (map (\<lambda>(i, element).
        case node g i of
          None \<Rightarrow> []
        | Some dagreNode \<Rightarrow>
            let topLeft = centerToTopLeft (node_x geo i) (node_y geo i)
                            (nl_width dagreNode) (nl_height dagreNode)
            in [\<lparr>pa_id = i, pa_label = a_label element, pa_type = a_type element,
                  pa_layer = a_layer element, pa_x = px topLeft, pa_y = py topLeft,
                  pa_width = nl_width dagreNode, pa_height = nl_height dagreNode\<rparr>]) elements)"

text \<open>
  Step 6: one band per present layer that has positioned elements, the bounding box of
  these elements with padding; on the first element \<open>Math.min(Infinity, el.x)\<close> is \<open>el.x\<close>.
\<close>

definition layerBand :: "ArchiMateLayer \<Rightarrow> PositionedArchiMateElement list \<Rightarrow> PositionedArchiMateLayer list" where
  "layerBand layer positionedElements =
     (case filter (\<lambda>e. pa_layer e = layer) positionedElements of
        [] \<Rightarrow> []
      | el # rest \<Rightarrow>
          let minX = fold (\<lambda>el minX. min minX (pa_x el)) rest (pa_x el);
              minY = fold (\<lambda>el minY. min minY (pa_y el)) rest (pa_y el);
              maxX = fold (\<lambda>el maxX. max maxX (pa_x el + pa_width el)) rest (pa_x el + pa_width el);
              maxY = fold (\<lambda>el maxY. max maxY (pa_y el + pa_height el)) rest (pa_y el + pa_height el)
          in [\<lparr>pl_name = layer,
                pl_x = minX - ARCHIMATE_layerPadding,
                pl_y = minY - ARCHIMATE_layerPadding - ARCHIMATE_layerLabelHeight,
                pl_width = (maxX - minX) + ARCHIMATE_layerPadding * 2,
                pl_height = (maxY - minY) + ARCHIMATE_layerPadding * 2 + ARCHIMATE_layerLabelHeight\<rparr>])"

definition sizeLayers :: "ArchiMateLayer list \<Rightarrow> PositionedArchiMateElement list \<Rightarrow> PositionedArchiMateLayer list" where
  "sizeLayers layers positionedElements =
     concat (map (\<lambda>layer. layerBand layer positionedElements) layers)"

text \<open>
  The normalization runs when \<open>positionedLayers.length > 0\<close>; then \<open>Math.min(...xs)\<close> and
  \<open>Math.max(...xs)\<close> have at least one argument and fold over the others from the first.
\<close>

definition normalizeLayers :: "PositionedArchiMateLayer list \<Rightarrow> PositionedArchiMateLayer list" where
  "normalizeLayers positionedLayers =
     (case positionedLayers of
        [] \<Rightarrow> positionedLayers
      | first # rest \<Rightarrow>
          let globalMinX = fold min (map pl_x rest) (pl_x first);
              globalMaxRight = fold max (map (\<lambda>l. pl_x l + pl_width l) rest)
                                 (pl_x first + pl_width first);
              globalWidth = globalMaxRight - globalMinX
          in map (\<lambda>layer. layer\<lparr>pl_x := globalMinX, pl_width := globalWidth\<rparr>) positionedLayers)"

text \<open>
  Step 7: the relationships. An edge tagged \<open>_layerEdge\<close> is skipped, and so is an edge
  without \<open>_index\<close>.
\<close>

definition archimatePositionRelationship ::
  "ArchiMateRelationship list \<Rightarrow> Graph \<Rightarrow> Geometry \<Rightarrow> (string \<times> string) \<times> EdgeLabel
     \<Rightarrow> LayoutError + PositionedArchiMateRelationship list" where
  "archimatePositionRelationship relationships g geo edge =
     (case edge of ((v, w), dagreEdge) \<Rightarrow>
        if el_layerEdge dagreEdge then Inr []
        else
          (case el_index dagreEdge of
             None \<Rightarrow> Inr []
           | Some i \<Rightarrow>
               if i < length relationships
               then let rel = relationships ! i
                    in Inr [\<lparr>par_source = ar_source rel, par_target = ar_target rel,
                             par_type = ar_type rel, par_label = ar_label rel,
                             par_points = edgePath g geo v w\<rparr>]
               else Inl TypeError))"

definition layoutArchiMateDiagram :: "dagre \<Rightarrow> ArchiMateDiagram \<Rightarrow> LayoutError + PositionedArchiMateDiagram" where
  "layoutArchiMateDiagram dagre_layout diagram =
     (if length (ad_elements diagram) = 0
      then Inr \<lparr>pad_width = 0, pad_height = 0, pad_layers = [], pad_elements = [],
                pad_relationships = []\<rparr>
      else
        case buildArchiMateGraph diagram of
          Inl e \<Rightarrow> Inl e
        | Inr g \<Rightarrow>
           (case dagre_layout g of
              Inl message \<Rightarrow> Inl (Error (''Dagre layout failed (ArchiMate diagram): '' @ message))
            | Inr geo \<Rightarrow>
               (let positionedElements = archimatePositionElements g geo (ad_elements diagram);
                    positionedLayers =
                      normalizeLayers (sizeLayers (presentLayers diagram) positionedElements)
                in case collect (map (archimatePositionRelationship (ad_relationships diagram) g geo)
                                   (g_edges g)) of
                     Inl e \<Rightarrow> Inl e
                   | Inr relationships \<Rightarrow>
                       Inr \<lparr>pad_width = (case graph_width geo of None \<Rightarrow> 600 | Some w \<Rightarrow> w),
                            pad_height = (case graph_height geo of None \<Rightarrow> 400 | Some h \<Rightarrow> h),
                            pad_layers = positionedLayers,
                            pad_elements = positionedElements,
                            pad_relationships = concat relationships\<rparr>)))"

section \<open>Notions used to state the properties\<close>

text \<open>
  All boundaries of a diagram, nested ones included, in the order in which
  \<open>flattenBoundaries\<close> lists their positioned counterparts.
\<close>

fun subBoundaries :: "C4Boundary \<Rightarrow> C4Boundary list" where
  "subBoundaries (C4Boundary a l k elements childBoundaries parent) =
     C4Boundary a l k elements childBoundaries parent # concat (map subBoundaries childBoundaries)"

text \<open>
  A rectangle lies inside a positioned boundary with the padding of 30 on the left, on the
  right and below, and with the padding of 30 plus the header band of 28 above.
\<close>

definition paddedInside :: "PositionedC4Boundary \<Rightarrow> Rect \<Rightarrow> bool" where
  "paddedInside b rect \<longleftrightarrow>
     pb_x b + 30 \<le> rc_x rect
     \<and> pb_y b + 30 + 28 \<le> rc_y rect
     \<and> rc_right rect + 30 \<le> pb_x b + pb_width b
     \<and> rc_bottom rect + 30 \<le> pb_y b + pb_height b"

definition elementRect :: "PositionedC4Element \<Rightarrow> Rect" where
  "elementRect pos =
     \<lparr>rc_x = pe_x pos, rc_y = pe_y pos, rc_right = pe_x pos + pe_width pos,
      rc_bottom = pe_y pos + pe_height pos\<rparr>"

text \<open>The right edge of a layer band.\<close>

definition layerRight :: "PositionedArchiMateLayer \<Rightarrow> real" where
  "layerRight l = pl_x l + pl_width l"

text \<open>
  The ordered pair of end points of a relationship, and the relationship at index \<open>i\<close>
  being the last of the list with its pair.
\<close>

definition endpoints :: "C4Relationship \<Rightarrow> string \<times> string" where
  "endpoints rel = (r_from rel, r_to rel)"

definition positionedEndpoints :: "PositionedC4Relationship \<Rightarrow> string \<times> string" where
  "positionedEndpoints p = (pr_from p, pr_to p)"

definition lastWith :: "C4Relationship list \<Rightarrow> nat \<Rightarrow> bool" where
  "lastWith rels i \<longleftrightarrow>
     i < length rels \<and> endpoints (rels ! i) \<notin> set (map endpoints (drop (Suc i) rels))"

text \<open>A positioned boundary lies within the canvas \<open>[0, width] \<times> [0, height]\<close>.\<close>

definition boundaryInCanvas :: "PositionedC4Diagram \<Rightarrow> PositionedC4Boundary \<Rightarrow> bool" where
  "boundaryInCanvas result b \<longleftrightarrow>
     0 \<le> pb_x b \<and> 0 \<le> pb_y b
     \<and> pb_x b + pb_width b \<le> pd_width result
     \<and> pb_y b + pb_height b \<le> pd_height result"

text \<open>
  Two consecutive points share exactly one coordinate, or are the same point; a path is
  orthogonal when all its consecutive pairs are.
\<close>

definition orthogonalStep :: "Point \<Rightarrow> Point \<Rightarrow> bool" where
  "orthogonalStep p q \<longleftrightarrow> ((px p = px q) \<noteq> (py p = py q)) \<or> p = q"


section \<open>Concrete diagrams\<close>

text \<open>Two elements: a container with three text lines, and a person.\<close>

definition apiGateway :: C4Element where
  "apiGateway =
     \<lparr>e_kind = Container, e_alias = ''api'',
      e_label = [0x41, 0x50, 0x49, 0x20, 0x47, 0x61, 0x74, 0x65, 0x77, 0x61, 0x79],
      e_description = Some [0x52, 0x6F, 0x75, 0x74, 0x65, 0x73, 0x20, 0x61, 0x6E, 0x64, 0x20,
                            0x61, 0x75, 0x74, 0x68, 0x65, 0x6E, 0x74, 0x69, 0x63, 0x61, 0x74,
                            0x65, 0x73, 0x20, 0x65, 0x76, 0x65, 0x72, 0x79, 0x20, 0x72, 0x65,
                            0x71, 0x75, 0x65, 0x73, 0x74],
      e_technology = Some [0x47, 0x6F],
      e_external = False, e_parentBoundary = None\<rparr>"

definition customer :: C4Element where
  "customer =
     \<lparr>e_kind = Person, e_alias = ''customer'',
      e_label = [0x43, 0x75, 0x73, 0x74, 0x6F, 0x6D, 0x65, 0x72],
      e_description = Some [0x41, 0x20, 0x75, 0x73, 0x65, 0x72],
      e_technology = None,
      e_external = False, e_parentBoundary = None\<rparr>"

text \<open>A layout engine that always throws, and the two diagrams without elements.\<close>

definition throwingDagre :: dagre where
  "throwingDagre g = Inl ''boom''"

definition emptyC4Diagram :: C4Diagram where
  "emptyC4Diagram =
     \<lparr>d_type = C4Context, d_title = None, d_elements = [], d_relationships = [],
      d_boundaries = []\<rparr>"

definition emptyArchiMateDiagram :: ArchiMateDiagram where
  "emptyArchiMateDiagram =
     \<lparr>ad_layers = Map.empty, ad_elements = [], ad_relationships = []\<rparr>"

text \<open>
  An ArchiMate diagram with a business and an application layer: three elements, two
  relationships between them and one to an id that no element has. \<open>crmGeometry\<close> is a
  geometry a layout engine may return for its graph \<open>crmGraph\<close>; \<open>crmResult\<close> is the
  positioned diagram.
\<close>

definition custElement :: ArchiMateElement where
  "custElement = \<lparr>a_id = ''cust'', a_label = [0x43, 0x75, 0x73, 0x74, 0x6F, 0x6D, 0x65, 0x72],
     a_type = [0x61, 0x63, 0x74, 0x6F, 0x72], a_layer = business\<rparr>"

definition crmElement :: ArchiMateElement where
  "crmElement = \<lparr>a_id = ''crm'', a_label = [0x43, 0x52, 0x4D],
     a_type = [0x63, 0x6F, 0x6D, 0x70, 0x6F, 0x6E, 0x65, 0x6E, 0x74], a_layer = application\<rparr>"

definition billingElement :: ArchiMateElement where
  "billingElement = \<lparr>a_id = ''billing'', a_label = [0x42, 0x69, 0x6C, 0x6C, 0x69, 0x6E, 0x67],
     a_type = [0x63, 0x6F, 0x6D, 0x70, 0x6F, 0x6E, 0x65, 0x6E, 0x74], a_layer = application\<rparr>"

definition crmDiagram :: ArchiMateDiagram where
  "crmDiagram =
     \<lparr>ad_layers = [business \<mapsto> [custElement], application \<mapsto> [crmElement, billingElement]],
      ad_elements = [(''cust'', custElement), (''crm'', crmElement), (''billing'', billingElement)],
      ad_relationships =
        [\<lparr>ar_source = ''cust'', ar_target = ''billing'', ar_type = serving, ar_label = None\<rparr>,
         \<lparr>ar_source = ''crm'', ar_target = ''billing'', ar_type = flow,
           ar_label = Some [0x70, 0x61, 0x79]\<rparr>,
         \<lparr>ar_source = ''cust'', ar_target = ''ghost'', ar_type = association, ar_label = None\<rparr>]\<rparr>"

definition crmGeometry :: Geometry where
  "crmGeometry =
     \<lparr>node_x = (\<lambda>v. if v = ''cust'' then 120 else if v = ''crm'' then 100 else 260),
      node_y = (\<lambda>v. if v = ''cust'' then 65 else 235),
      edge_points = (\<lambda>e.
         if e = (''cust'', ''billing'')
         then Some [\<lparr>px = 120, py = 90\<rparr>, \<lparr>px = 190, py = 150\<rparr>, \<lparr>px = 260, py = 210\<rparr>]
         else if e = (''crm'', ''billing'')
         then Some [\<lparr>px = 160, py = 235\<rparr>, \<lparr>px = 180, py = 235\<rparr>, \<lparr>px = 200, py = 235\<rparr>]
         else if e = (''cust'', ''crm'')
         then Some [\<lparr>px = 120, py = 90\<rparr>, \<lparr>px = 110, py = 150\<rparr>, \<lparr>px = 100, py = 210\<rparr>]
         else None),
      graph_width = Some 360, graph_height = Some 300\<rparr>"

definition crmDagre :: dagre where
  "crmDagre g = Inr crmGeometry"

definition crmGraph :: Graph where
  "crmGraph =
     \<lparr>g_label = ARCHIMATE_graphLabel,
      g_nodes =
        [(''cust'', Some \<lparr>nl_width = 120, nl_height = 50, nl_layer = Some business\<rparr>),
         (''crm'', Some \<lparr>nl_width = 120, nl_height = 50, nl_layer = Some application\<rparr>),
         (''billing'', Some \<lparr>nl_width = 120, nl_height = 50, nl_layer = Some application\<rparr>)],
      g_edges =
        [((''cust'', ''crm''), layerEdgeLabel),
         ((''cust'', ''billing''),
            \<lparr>el_index = Some 0, el_label = Some [], el_width = Some 0,
               el_height = Some 0, el_labelpos = Some ''c'',
               el_minlen = None, el_weight = None, el_layerEdge = False\<rparr>),
         ((''crm'', ''billing''),
            \<lparr>el_index = Some 1, el_label = Some [0x70, 0x61, 0x79],
               el_width = Some 25.16, el_height = Some 17,
               el_labelpos = Some ''c'', el_minlen = None, el_weight = None,
               el_layerEdge = False\<rparr>)]\<rparr>"

definition crmResult :: PositionedArchiMateDiagram where
  "crmResult =
     \<lparr>pad_width = 360, pad_height = 300,
      pad_layers =
        [\<lparr>pl_name = business, pl_x = 20, pl_y = - 4, pl_width = 320, pl_height = 114\<rparr>,
         \<lparr>pl_name = application, pl_x = 20, pl_y = 166, pl_width = 320, pl_height = 114\<rparr>],
      pad_elements =
        [\<lparr>pa_id = ''cust'', pa_label = a_label custElement, pa_type = a_type custElement,
           pa_layer = business, pa_x = 60, pa_y = 40, pa_width = 120, pa_height = 50\<rparr>,
         \<lparr>pa_id = ''crm'', pa_label = a_label crmElement, pa_type = a_type crmElement,
           pa_layer = application, pa_x = 40, pa_y = 210, pa_width = 120, pa_height = 50\<rparr>,
         \<lparr>pa_id = ''billing'', pa_label = a_label billingElement, pa_type = a_type billingElement,
           pa_layer = application, pa_x = 200, pa_y = 210, pa_width = 120, pa_height = 50\<rparr>],
      pad_relationships =
        [\<lparr>par_source = ''cust'', par_target = ''billing'', par_type = serving, par_label = None,
           par_points =
             [\<lparr>px = 120, py = 90\<rparr>, \<lparr>px = 120, py = 150\<rparr>, \<lparr>px = 190, py = 150\<rparr>,
              \<lparr>px = 190, py = 210\<rparr>, \<lparr>px = 200, py = 210\<rparr>]\<rparr>,
         \<lparr>par_source = ''crm'', par_target = ''billing'', par_type = flow,
           par_label = Some [0x70, 0x61, 0x79],
           par_points =
             [\<lparr>px = 160, py = 235\<rparr>, \<lparr>px = 180, py = 235\<rparr>, \<lparr>px = 200, py = 235\<rparr>]\<rparr>]\<rparr>"

text \<open>
  Two positioned systems, side by side, and two boundaries: \<open>shop\<close> holds the element
  \<open>web\<close> and the boundary \<open>store\<close>, which holds the element \<open>db\<close>.
\<close>

definition webElement :: C4Element where
  "webElement =
     \<lparr>e_kind = System, e_alias = ''web'', e_label = [0x57, 0x65, 0x62], e_description = None,
      e_technology = None, e_external = False, e_parentBoundary = Some ''shop''\<rparr>"

definition dbElement :: C4Element where
  "dbElement =
     \<lparr>e_kind = ContainerDb, e_alias = ''db'', e_label = [0x44, 0x42], e_description = None,
      e_technology = None, e_external = False, e_parentBoundary = Some ''store''\<rparr>"

definition webPositioned :: PositionedC4Element where
  "webPositioned =
     \<lparr>pe_kind = System, pe_alias = ''web'', pe_label = [0x57, 0x65, 0x62],
      pe_description = None, pe_technology = None, pe_external = False,
      pe_x = 40, pe_y = 40, pe_width = 160, pe_height = 80\<rparr>"

definition dbPositioned :: PositionedC4Element where
  "dbPositioned =
     \<lparr>pe_kind = ContainerDb, pe_alias = ''db'', pe_label = [0x44, 0x42],
      pe_description = None, pe_technology = None, pe_external = False,
      pe_x = 260, pe_y = 40, pe_width = 160, pe_height = 80\<rparr>"

definition storeBoundary :: C4Boundary where
  "storeBoundary =
     C4Boundary ''store'' [0x53, 0x74, 0x6F, 0x72, 0x65] Container_Boundary [dbElement] []
       (Some ''shop'')"

definition shopBoundary :: C4Boundary where
  "shopBoundary =
     C4Boundary ''shop'' [0x53, 0x68, 0x6F, 0x70] System_Boundary [webElement] [storeBoundary] None"

definition shopLookup :: "string \<rightharpoonup> PositionedC4Element" where
  "shopLookup = c4ElementLookup [webPositioned, dbPositioned]"

definition storePositioned :: PositionedC4Boundary where
  "storePositioned =
     PositionedC4Boundary ''store'' [0x53, 0x74, 0x6F, 0x72, 0x65] Container_Boundary
       230 (- 18) 220 168 []"

definition shopPositioned :: PositionedC4Boundary where
  "shopPositioned =
     PositionedC4Boundary ''shop'' [0x53, 0x68, 0x6F, 0x70] System_Boundary
       10 (- 76) 470 256 [storePositioned]"

text \<open>
  A C4 diagram of a person and a container with three relationships, the first two between
  the same pair; \<open>ordersGeometry\<close> is a geometry a layout engine may return for its graph
  \<open>ordersGraph\<close>. A C4 diagram of one container inside one boundary, with its graph, the
  geometry of \<open>singleNodeDagre\<close> and the positioned diagram.
\<close>

definition ordersDiagram :: C4Diagram where
  "ordersDiagram =
     \<lparr>d_type = C4Container, d_title = Some [0x4F, 0x72, 0x64, 0x65, 0x72, 0x73],
      d_elements = [customer, apiGateway],
      d_relationships =
        [\<lparr>r_from = ''customer'', r_to = ''api'', r_label = [0x55, 0x73, 0x65, 0x73],
           r_technology = None, r_direction = None\<rparr>,
         \<lparr>r_from = ''customer'', r_to = ''api'', r_label = [0x43, 0x61, 0x6C, 0x6C, 0x73],
           r_technology = Some [0x48, 0x54, 0x54, 0x50, 0x53], r_direction = None\<rparr>,
         \<lparr>r_from = ''api'', r_to = ''customer'',
           r_label = [0x4E, 0x6F, 0x74, 0x69, 0x66, 0x69, 0x65, 0x73],
           r_technology = None, r_direction = None\<rparr>],
      d_boundaries = []\<rparr>"

definition ordersGeometry :: Geometry where
  "ordersGeometry =
     \<lparr>node_x = (\<lambda>v. 164.68),
      node_y = (\<lambda>v. if v = ''customer'' then 130 else 400),
      edge_points = (\<lambda>e.
         if e = (''customer'', ''api'')
         then Some [\<lparr>px = 120, py = 220\<rparr>, \<lparr>px = 100, py = 290\<rparr>, \<lparr>px = 120, py = 360\<rparr>]
         else if e = (''api'', ''customer'')
         then Some [\<lparr>px = 200, py = 360\<rparr>, \<lparr>px = 220, py = 290\<rparr>, \<lparr>px = 200, py = 220\<rparr>]
         else None),
      graph_width = Some 329.36, graph_height = Some 480\<rparr>"

definition ordersDagre :: dagre where
  "ordersDagre g = Inr ordersGeometry"

text \<open>
  The layout engine on a graph of one labelled node and no edge: the box of the node sits at
  the margins, and the graph is as large as the box and the margins around it.
\<close>

definition singleNodeDagre :: dagre where
  "singleNodeDagre g =
     (case (g_nodes g, g_edges g) of
        ([(v, Some n)], []) \<Rightarrow>
          Inr \<lparr>node_x = (\<lambda>u. marginx (g_label g) + nl_width n / 2),
               node_y = (\<lambda>u. marginy (g_label g) + nl_height n / 2),
               edge_points = (\<lambda>e. None),
               graph_width = Some (nl_width n + 2 * marginx (g_label g)),
               graph_height = Some (nl_height n + 2 * marginy (g_label g))\<rparr>
      | _ \<Rightarrow> Inl ''not a single node'')"

definition gatewayDiagram :: C4Diagram where
  "gatewayDiagram =
     \<lparr>d_type = C4Container, d_title = None,
      d_elements = [apiGateway],
      d_relationships = [],
      d_boundaries =
        [C4Boundary ''platform'' [0x50, 0x6C, 0x61, 0x74, 0x66, 0x6F, 0x72, 0x6D] System_Boundary
           [apiGateway] [] None]\<rparr>"

definition gatewayGraph :: Graph where
  "gatewayGraph =
     \<lparr>g_label = C4_graphLabel,
      g_nodes = [(''api'', Some \<lparr>nl_width = 249.36, nl_height = 80, nl_layer = None\<rparr>)],
      g_edges = []\<rparr>"

definition gatewayGeometry :: Geometry where
  "gatewayGeometry =
     \<lparr>node_x = (\<lambda>u. 164.68), node_y = (\<lambda>u. 80), edge_points = (\<lambda>e. None),
      graph_width = Some 329.36, graph_height = Some 160\<rparr>"

definition ordersGraph :: Graph where
  "ordersGraph =
     \<lparr>g_label = C4_graphLabel,
      g_nodes =
        [(''customer'', Some \<lparr>nl_width = 160, nl_height = 180, nl_layer = None\<rparr>),
         (''api'', Some \<lparr>nl_width = 249.36, nl_height = 80, nl_layer = None\<rparr>)],
      g_edges =
        [((''customer'', ''api''), c4EdgeLabel 1 (d_relationships ordersDiagram ! 1)),
         ((''api'', ''customer''), c4EdgeLabel 2 (d_relationships ordersDiagram ! 2))]\<rparr>"

definition ordersResult :: PositionedC4Diagram where
  "ordersResult =
     \<lparr>pd_width = 329.36, pd_height = 480,
      pd_title = Some [0x4F, 0x72, 0x64, 0x65, 0x72, 0x73],
      pd_elements =
        [\<lparr>pe_kind = Person, pe_alias = ''customer'', pe_label = e_label customer,
           pe_description = e_description customer, pe_technology = None, pe_external = False,
           pe_x = 84.68, pe_y = 40, pe_width = 160, pe_height = 180\<rparr>,
         \<lparr>pe_kind = Container, pe_alias = ''api'', pe_label = e_label apiGateway,
           pe_description = e_description apiGateway, pe_technology = e_technology apiGateway,
           pe_external = False, pe_x = 40, pe_y = 360, pe_width = 249.36, pe_height = 80\<rparr>],
      pd_relationships =
        [\<lparr>pr_from = ''customer'', pr_to = ''api'', pr_label = [0x43, 0x61, 0x6C, 0x6C, 0x73],
           pr_technology = Some [0x48, 0x54, 0x54, 0x50, 0x53],
           pr_points =
             [\<lparr>px = 120, py = 220\<rparr>, \<lparr>px = 120, py = 290\<rparr>, \<lparr>px = 100, py = 290\<rparr>,
              \<lparr>px = 100, py = 360\<rparr>, \<lparr>px = 100, py = 360\<rparr>]\<rparr>,
         \<lparr>pr_from = ''api'', pr_to = ''customer'',
           pr_label = [0x4E, 0x6F, 0x74, 0x69, 0x66, 0x69, 0x65, 0x73], pr_technology = None,
           pr_points =
             [\<lparr>px = 200, py = 360\<rparr>, \<lparr>px = 200, py = 290\<rparr>, \<lparr>px = 220, py = 290\<rparr>,
              \<lparr>px = 220, py = 220\<rparr>, \<lparr>px = 220, py = 220\<rparr>]\<rparr>],
      pd_boundaries = []\<rparr>"

definition gatewayResult :: PositionedC4Diagram where
  "gatewayResult =
     \<lparr>pd_width = 359.36, pd_height = 190, pd_title = None,
      pd_elements =
        [\<lparr>pe_kind = Container, pe_alias = ''api'', pe_label = e_label apiGateway,
           pe_description = e_description apiGateway, pe_technology = e_technology apiGateway,
           pe_external = False, pe_x = 40, pe_y = 40, pe_width = 249.36, pe_height = 80\<rparr>],
      pd_relationships = [],
      pd_boundaries =
        [PositionedC4Boundary ''platform'' [0x50, 0x6C, 0x61, 0x74, 0x66, 0x6F, 0x72, 0x6D]
           System_Boundary 10 (- 18) 309.36 168 []]\<rparr>"

definition platformPositioned :: PositionedC4Boundary where
  "platformPositioned =
     PositionedC4Boundary ''platform'' [0x50, 0x6C, 0x61, 0x74, 0x66, 0x6F, 0x72, 0x6D]
       System_Boundary 10 (- 18) 309.36 168 []"


text \<open>A C4 diagram without elements whose two relationships join the same pair.\<close>

definition unplacedDiagram :: C4Diagram where
  "unplacedDiagram =
     \<lparr>d_type = C4Context, d_title = None, d_elements = [],
      d_relationships =
        [\<lparr>r_from = ''a'', r_to = ''b'', r_label = [0x78], r_technology = None,
           r_direction = None\<rparr>,
         \<lparr>r_from = ''a'', r_to = ''b'', r_label = [0x79], r_technology = None,
           r_direction = None\<rparr>],
      d_boundaries = []\<rparr>"





text \<open>
  The C4 diagram of the two boundaries \<open>shop\<close> and \<open>store\<close> above, with its graph, a
  geometry that puts the two boxes side by side at the margins, and the positioned diagram.
\<close>

definition shopDiagram :: C4Diagram where
  "shopDiagram =
     \<lparr>d_type = C4Container, d_title = None,
      d_elements = [webElement, dbElement],
      d_relationships = [],
      d_boundaries = [shopBoundary]\<rparr>"

definition shopGraph :: Graph where
  "shopGraph =
     \<lparr>g_label = C4_graphLabel,
      g_nodes =
        [(''web'', Some \<lparr>nl_width = 160, nl_height = 80, nl_layer = None\<rparr>),
         (''db'', Some \<lparr>nl_width = 160, nl_height = 80, nl_layer = None\<rparr>)],
      g_edges = []\<rparr>"

definition shopGeometry :: Geometry where
  "shopGeometry =
     \<lparr>node_x = (\<lambda>v. if v = ''web'' then 120 else 340),
      node_y = (\<lambda>v. 80),
      edge_points = (\<lambda>e. None),
      graph_width = Some 460, graph_height = Some 160\<rparr>"

definition shopDagre :: dagre where
  "shopDagre g = Inr shopGeometry"

definition shopResult :: PositionedC4Diagram where
  "shopResult =
     \<lparr>pd_width = 520, pd_height = 220, pd_title = None,
      pd_elements = [webPositioned, dbPositioned],
      pd_relationships = [],
      pd_boundaries = [shopPositioned]\<rparr>"

section \<open>Evaluation of the concrete diagrams\<close>

lemmas text_eval =
  estimateTextWidth_def getDisplayWidth_def charColumns_def isFullWidth_def
  isHighSurrogate_def isLowSurrogate_def widthRatio_def bracketed_def truthy_def
  FONT_SIZES_nodeLabel_def FONT_WEIGHTS_nodeLabel_def FONT_SIZES_edgeLabel_def
  FONT_WEIGHTS_edgeLabel_def C4_techFontSize_def C4_techFontWeight_def
  C4_descFontSize_def C4_descFontWeight_def

lemmas graph_eval =
  newGraph_def setNode_def ensureNode_def setEdge_def node_def nodeShape_def

lemma crmSizes:
  "archimateElementSizes (ad_elements crmDiagram) =
     [(''cust'', \<lparr>s_width = 120, s_height = 50\<rparr>), (''crm'', \<lparr>s_width = 120, s_height = 50\<rparr>),
      (''billing'', \<lparr>s_width = 120, s_height = 50\<rparr>)]"
  by (simp add: archimateElementSizes_def archimateElementSize_def crmDiagram_def custElement_def
      crmElement_def billingElement_def text_eval Let_def ARCHIMATE_minElementWidth_def
      ARCHIMATE_elementHeight_def ARCHIMATE_typeIndicatorSize_def)

lemma crmPresentLayers: "presentLayers crmDiagram = [business, application]"
  by (simp add: presentLayers_def LAYER_ORDER_def crmDiagram_def)

lemma crmGraph_built: "buildArchiMateGraph crmDiagram = Inr crmGraph"
  unfolding buildArchiMateGraph_def crmSizes crmPresentLayers
  by (simp add: crmDiagram_def archimateAddNode_def graph_eval addLayerEdges_def layerElements_def
      addRelationshipEdges_def hasElement_def archimateEdgeLabel_def crmGraph_def
      custElement_def crmElement_def billingElement_def text_eval)

lemma crmPath1:
  "edgePath crmGraph crmGeometry ''cust'' ''billing'' =
     [\<lparr>px = 120, py = 90\<rparr>, \<lparr>px = 120, py = 150\<rparr>, \<lparr>px = 190, py = 150\<rparr>,
      \<lparr>px = 190, py = 210\<rparr>, \<lparr>px = 200, py = 210\<rparr>]"
  by (simp add: edgePath_def crmGeometry_def crmGraph_def graph_eval bendPoint_def
      clipEndpointsToNodes_def clipStart_def insideShape_def exitPoint_def exitParam_def)

lemma crmPath2:
  "edgePath crmGraph crmGeometry ''crm'' ''billing'' =
     [\<lparr>px = 160, py = 235\<rparr>, \<lparr>px = 180, py = 235\<rparr>, \<lparr>px = 200, py = 235\<rparr>]"
  by (simp add: edgePath_def crmGeometry_def crmGraph_def graph_eval bendPoint_def
      clipEndpointsToNodes_def clipStart_def insideShape_def exitPoint_def exitParam_def)

lemma crmElements_positioned:
  "archimatePositionElements crmGraph crmGeometry (ad_elements crmDiagram) = pad_elements crmResult"
  by (simp add: archimatePositionElements_def crmGraph_def crmGeometry_def crmDiagram_def
      crmResult_def graph_eval centerToTopLeft_def custElement_def crmElement_def billingElement_def)

lemma crmLayers:
  "normalizeLayers (sizeLayers [business, application] (pad_elements crmResult)) = pad_layers crmResult"
  by (simp add: normalizeLayers_def sizeLayers_def layerBand_def crmResult_def Let_def
      ARCHIMATE_layerPadding_def ARCHIMATE_layerLabelHeight_def)

lemma crmRelationships:
  "collect (map (archimatePositionRelationship (ad_relationships crmDiagram) crmGraph crmGeometry)
              (g_edges crmGraph))
     = Inr [[], [pad_relationships crmResult ! 0], [pad_relationships crmResult ! 1]]"
proof -
  have edges: "g_edges crmGraph =
        [((''cust'', ''crm''), layerEdgeLabel),
         ((''cust'', ''billing''),
            \<lparr>el_index = Some 0, el_label = Some [], el_width = Some 0,
               el_height = Some 0, el_labelpos = Some ''c'',
               el_minlen = None, el_weight = None, el_layerEdge = False\<rparr>),
         ((''crm'', ''billing''),
            \<lparr>el_index = Some 1, el_label = Some [0x70, 0x61, 0x79],
               el_width = Some 25.16, el_height = Some 17,
               el_labelpos = Some ''c'', el_minlen = None, el_weight = None,
               el_layerEdge = False\<rparr>)]"
    by (simp add: crmGraph_def)
  show ?thesis
    unfolding edges
    by (simp add: archimatePositionRelationship_def layerEdgeLabel_def crmPath1 crmPath2
        crmDiagram_def crmResult_def)
qed

lemma crmLayout: "layoutArchiMateDiagram crmDagre crmDiagram = Inr crmResult"
proof -
  have size: "graph_width crmGeometry = Some 360" "graph_height crmGeometry = Some 300"
    by (simp_all add: crmGeometry_def)
  have nonempty: "length (ad_elements crmDiagram) \<noteq> 0"
    by (simp add: crmDiagram_def)
  show ?thesis
    unfolding layoutArchiMateDiagram_def crmGraph_built crmDagre_def
    using nonempty
    by (simp add: crmElements_positioned crmPresentLayers crmLayers crmRelationships size)
       (simp add: crmResult_def)
qed

lemma catalogue_sizes:
  "calculateElementSize customer = \<lparr>s_width = 160, s_height = 180\<rparr>"
  "calculateElementSize apiGateway = \<lparr>s_width = 249.36, s_height = 80\<rparr>"
  by (simp_all add: calculateElementSize_def customer_def apiGateway_def Let_def text_eval
      C4_personWidth_def C4_personHeight_def C4_minBoxWidth_def C4_minBoxHeight_def
      C4_boxPadX_def C4_boxPadY_def C4_lineHeight_def)

lemma catalogue_aliases: "e_alias customer = ''customer''" "e_alias apiGateway = ''api''"
  by (simp_all add: customer_def apiGateway_def)

lemma ordersGraph_built: "buildC4Graph ordersDiagram = Inr ordersGraph"
proof -
  have elements: "d_elements ordersDiagram = [customer, apiGateway]"
    by (simp add: ordersDiagram_def)
  have sizes: "c4ElementSizes [customer, apiGateway]
      = [(''customer'', \<lparr>s_width = 160, s_height = 180\<rparr>), (''api'', \<lparr>s_width = 249.36, s_height = 80\<rparr>)]"
    by (simp add: c4ElementSizes_def catalogue_sizes catalogue_aliases)
  have nodes: "foldE (c4AddNode (c4ElementSizes [customer, apiGateway])) [customer, apiGateway]
         (newGraph C4_graphLabel)
      = Inr \<lparr>g_label = C4_graphLabel,
             g_nodes =
               [(''customer'', Some \<lparr>nl_width = 160, nl_height = 180, nl_layer = None\<rparr>),
                (''api'', Some \<lparr>nl_width = 249.36, nl_height = 80, nl_layer = None\<rparr>)],
             g_edges = []\<rparr>"
    unfolding sizes by (simp add: c4AddNode_def catalogue_aliases graph_eval)
  show ?thesis
    unfolding buildC4Graph_def elements nodes
    by (simp add: c4AddEdges_def ordersDiagram_def graph_eval ordersGraph_def c4EdgeLabel_def)
qed

lemma ordersPaths:
  "edgePath ordersGraph ordersGeometry ''customer'' ''api'' =
     [\<lparr>px = 120, py = 220\<rparr>, \<lparr>px = 120, py = 290\<rparr>, \<lparr>px = 100, py = 290\<rparr>,
      \<lparr>px = 100, py = 360\<rparr>, \<lparr>px = 100, py = 360\<rparr>]"
  "edgePath ordersGraph ordersGeometry ''api'' ''customer'' =
     [\<lparr>px = 200, py = 360\<rparr>, \<lparr>px = 200, py = 290\<rparr>, \<lparr>px = 220, py = 290\<rparr>,
      \<lparr>px = 220, py = 220\<rparr>, \<lparr>px = 220, py = 220\<rparr>]"
  by (simp_all add: edgePath_def ordersGeometry_def ordersGraph_def graph_eval bendPoint_def
      clipEndpointsToNodes_def clipStart_def insideShape_def exitPoint_def exitParam_def)

lemma ordersElements:
  "collect (map (c4PositionElement ordersGraph ordersGeometry) (d_elements ordersDiagram))
     = Inr (pd_elements ordersResult)"
  by (simp add: c4PositionElement_def ordersGraph_def ordersGeometry_def ordersDiagram_def
      ordersResult_def graph_eval centerToTopLeft_def customer_def apiGateway_def)

lemma ordersRelationships:
  "collect (map (c4PositionRelationship (d_relationships ordersDiagram) ordersGraph ordersGeometry)
              (g_edges ordersGraph))
     = Inr (pd_relationships ordersResult)"
proof -
  have edges: "g_edges ordersGraph =
        [((''customer'', ''api''), c4EdgeLabel 1 (d_relationships ordersDiagram ! 1)),
         ((''api'', ''customer''), c4EdgeLabel 2 (d_relationships ordersDiagram ! 2))]"
    by (simp add: ordersGraph_def)
  show ?thesis
    unfolding edges
    by (simp add: c4PositionRelationship_def c4EdgeLabel_def ordersPaths ordersDiagram_def
        ordersResult_def)
qed

lemma ordersLayout: "layoutC4Diagram ordersDagre ordersDiagram = Inr ordersResult"
proof -
  have size: "graph_width ordersGeometry = Some 329.36" "graph_height ordersGeometry = Some 480"
    by (simp_all add: ordersGeometry_def)
  have nonempty: "length (d_elements ordersDiagram) \<noteq> 0"
    by (simp add: ordersDiagram_def)
  have rest: "d_boundaries ordersDiagram = []" "pd_boundaries ordersResult = []"
      "d_title ordersDiagram = pd_title ordersResult"
      "pd_width ordersResult = 329.36" "pd_height ordersResult = 480"
    by (simp_all add: ordersDiagram_def ordersResult_def)
  show ?thesis
    unfolding layoutC4Diagram_def ordersGraph_built ordersDagre_def
    using nonempty
    by (simp add: ordersElements ordersRelationships size rest layoutBoundaries_def
        c4CanvasWidth_def c4CanvasHeight_def flattenBoundaries_def)
qed

lemma gatewayLayout:
  "buildC4Graph gatewayDiagram = Inr gatewayGraph
   \<and> singleNodeDagre gatewayGraph = Inr gatewayGeometry
   \<and> layoutC4Diagram singleNodeDagre gatewayDiagram = Inr gatewayResult"
proof -
  have graph: "buildC4Graph gatewayDiagram = Inr gatewayGraph"
    by (simp add: buildC4Graph_def gatewayDiagram_def c4ElementSizes_def catalogue_sizes
        catalogue_aliases c4AddNode_def c4AddEdges_def graph_eval gatewayGraph_def)
  have dagre: "singleNodeDagre gatewayGraph = Inr gatewayGeometry"
    by (simp add: singleNodeDagre_def gatewayGraph_def gatewayGeometry_def C4_graphLabel_def
        C4_padding_def)
  have elements: "collect (map (c4PositionElement gatewayGraph gatewayGeometry) (d_elements gatewayDiagram))
      = Inr (pd_elements gatewayResult)"
    by (simp add: c4PositionElement_def gatewayDiagram_def gatewayResult_def graph_eval
        centerToTopLeft_def apiGateway_def gatewayGraph_def gatewayGeometry_def)
  have lookup: "c4ElementLookup (pd_elements gatewayResult) (e_alias apiGateway)
      = Some (pd_elements gatewayResult ! 0)"
    by (simp add: c4ElementLookup_def gatewayResult_def catalogue_aliases)
  have boundaries: "layoutBoundaries (d_boundaries gatewayDiagram) (c4ElementLookup (pd_elements gatewayResult))
      = pd_boundaries gatewayResult"
    unfolding layoutBoundaries_def gatewayDiagram_def
    by (simp add: elementRects_def lookup wrapRects_def Let_def)
       (simp add: gatewayResult_def C4_boundaryPadding_def C4_boundaryHeaderHeight_def)
  have canvas: "c4CanvasWidth gatewayGeometry (pd_boundaries gatewayResult) = pd_width gatewayResult"
      "c4CanvasHeight gatewayGeometry (pd_boundaries gatewayResult) = pd_height gatewayResult"
    by (simp_all add: c4CanvasWidth_def c4CanvasHeight_def flattenBoundaries_def gatewayResult_def
        C4_padding_def gatewayGeometry_def)
  have rest: "length (d_elements gatewayDiagram) \<noteq> 0" "d_relationships gatewayDiagram = []"
      "d_title gatewayDiagram = pd_title gatewayResult" "g_edges gatewayGraph = []"
      "pd_relationships gatewayResult = []"
    by (simp_all add: gatewayDiagram_def gatewayGraph_def gatewayResult_def)
  have "layoutC4Diagram singleNodeDagre gatewayDiagram = Inr gatewayResult"
    unfolding layoutC4Diagram_def graph
    using rest(1)
    by (simp add: dagre elements boundaries canvas rest(2,3,4) rest(5) [symmetric])
  with graph dagre show ?thesis by simp
qed

lemma crmFacts:
  "ad_elements crmDiagram \<noteq> []"
  "map fst (g_edges crmGraph) = [(''cust'', ''crm''), (''cust'', ''billing''), (''crm'', ''billing'')]"
  "map (\<lambda>e. el_layerEdge (snd e)) (g_edges crmGraph) = [True, False, False]"
  "map (\<lambda>p. (par_source p, par_target p)) (pad_relationships crmResult)
     = [(''cust'', ''billing''), (''crm'', ''billing'')]"
  "map (\<lambda>r. (ar_source r, ar_target r)) (ad_relationships crmDiagram)
     = [(''cust'', ''billing''), (''crm'', ''billing''), (''cust'', ''ghost'')]"
  "hasElement crmDiagram ''cust''" "hasElement crmDiagram ''crm''" "hasElement crmDiagram ''billing''"
  "\<not> hasElement crmDiagram ''ghost''"
  by (simp_all add: crmDiagram_def crmGraph_def crmResult_def layerEdgeLabel_def hasElement_def)

lemma ordersFacts:
  "d_elements ordersDiagram \<noteq> []"
  "map fst (g_edges ordersGraph) = [(''customer'', ''api''), (''api'', ''customer'')]"
  "map endpoints (d_relationships ordersDiagram)
     = [(''customer'', ''api''), (''customer'', ''api''), (''api'', ''customer'')]"
  "map positionedEndpoints (pd_relationships ordersResult)
     = [(''customer'', ''api''), (''api'', ''customer'')]"
  by (simp_all add: ordersDiagram_def ordersGraph_def ordersResult_def endpoints_def
      positionedEndpoints_def)

lemma shopLayout:
  "layoutBoundary shopLookup storeBoundary = storePositioned
   \<and> layoutBoundary shopLookup shopBoundary = shopPositioned"
  by (simp add: shopLookup_def c4ElementLookup_def webPositioned_def dbPositioned_def
      storeBoundary_def shopBoundary_def webElement_def dbElement_def elementRects_def
      boundaryRect_def wrapRects_def Let_def storePositioned_def shopPositioned_def
      C4_boundaryPadding_def C4_boundaryHeaderHeight_def)


lemma shopDiagramLayout:
  "buildC4Graph shopDiagram = Inr shopGraph
   \<and> layoutC4Diagram shopDagre shopDiagram = Inr shopResult
   \<and> c4ElementLookup (pd_elements shopResult) = shopLookup"
proof -
  have sizes: "calculateElementSize webElement = \<lparr>s_width = 160, s_height = 80\<rparr>"
      "calculateElementSize dbElement = \<lparr>s_width = 160, s_height = 80\<rparr>"
    by (simp_all add: calculateElementSize_def webElement_def dbElement_def Let_def text_eval
        C4_minBoxWidth_def C4_minBoxHeight_def C4_boxPadX_def C4_boxPadY_def C4_lineHeight_def)
  have aliases: "e_alias webElement = ''web''" "e_alias dbElement = ''db''"
    by (simp_all add: webElement_def dbElement_def)
  have graph: "buildC4Graph shopDiagram = Inr shopGraph"
    by (simp add: buildC4Graph_def shopDiagram_def c4ElementSizes_def sizes aliases
        c4AddNode_def c4AddEdges_def graph_eval shopGraph_def)
  have elements:
    "collect (map (c4PositionElement shopGraph shopGeometry) (d_elements shopDiagram))
       = Inr (pd_elements shopResult)"
    by (simp add: c4PositionElement_def shopDiagram_def shopResult_def graph_eval
        centerToTopLeft_def webElement_def dbElement_def webPositioned_def dbPositioned_def
        shopGraph_def shopGeometry_def)
  have lookup: "c4ElementLookup (pd_elements shopResult) = shopLookup"
    by (simp add: shopResult_def shopLookup_def)
  have boundaries: "layoutBoundaries (d_boundaries shopDiagram) shopLookup = pd_boundaries shopResult"
    by (simp add: layoutBoundaries_def shopDiagram_def shopResult_def shopLayout)
  have canvas: "c4CanvasWidth shopGeometry (pd_boundaries shopResult) = pd_width shopResult"
      "c4CanvasHeight shopGeometry (pd_boundaries shopResult) = pd_height shopResult"
    by (simp_all add: c4CanvasWidth_def c4CanvasHeight_def flattenBoundaries_def shopResult_def
        shopPositioned_def storePositioned_def C4_padding_def shopGeometry_def)
  have rest: "length (d_elements shopDiagram) \<noteq> 0" "d_relationships shopDiagram = []"
      "d_title shopDiagram = pd_title shopResult" "g_edges shopGraph = []"
      "pd_relationships shopResult = []"
    by (simp_all add: shopDiagram_def shopGraph_def shopResult_def)
  have "layoutC4Diagram shopDagre shopDiagram = Inr shopResult"
    unfolding layoutC4Diagram_def graph
    using rest(1)
    by (simp add: shopDagre_def elements lookup boundaries canvas rest(2,3,4) rest(5) [symmetric])
  with graph lookup show ?thesis by simp
qed

section \<open>Properties of the text metrics\<close>

lemma fold_add_sum: "fold (\<lambda>c (w::nat). w + f c) xs a = a + sum_list (map f xs)"
  by (induction xs arbitrary: a) auto

lemma getDisplayWidth_sum: "getDisplayWidth s = sum_list (map charColumns (stringIterator s))"
  by (simp add: getDisplayWidth_def fold_add_sum)

lemma charColumns_first: "charColumns (u # vs) = charColumns [u]"
  by (simp add: charColumns_def isFullWidth_def)

lemma columns_append:
  "sum_list (map charColumns (stringIterator s)) \<le> sum_list (map charColumns (stringIterator (s @ t)))"
proof (induction s rule: stringIterator.induct)
  case 1
  then show ?case by simp
next
  case (2 u)
  show ?case
  proof (cases t)
    case Nil
    then show ?thesis by simp
  next
    case (Cons v rest)
    then show ?thesis
      using charColumns_first [of u "[v]"] by simp
  qed
next
  case (3 u v rest)
  then show ?case by simp
qed

lemma getDisplayWidth_append: "getDisplayWidth s \<le> getDisplayWidth (s @ t)"
  by (simp add: getDisplayWidth_sum columns_append)

lemma stringIterator_nonempty: "g \<in> set (stringIterator s) \<Longrightarrow> g \<noteq> []"
  by (induction s rule: stringIterator.induct) (auto split: if_splits)

lemma isFullWidth_listed: "isFullWidth (code # rest) = inListedRange code"
  by (auto simp add: isFullWidth_def inListedRange_def)

lemma charColumns_listed: "g \<noteq> [] \<Longrightarrow> charColumns g = (if inListedRange (hd g) then 2 else 1)"
  by (cases g) (simp_all add: charColumns_def isFullWidth_listed)

lemma getDisplayWidth_listed:
  "getDisplayWidth s = sum_list (map (\<lambda>glyph. if inListedRange (hd glyph) then 2 else 1) (stringIterator s))"
proof -
  have "map charColumns (stringIterator s) =
        map (\<lambda>glyph. if inListedRange (hd glyph) then 2 else 1) (stringIterator s)"
    by (rule map_cong) (simp_all add: charColumns_listed stringIterator_nonempty)
  then show ?thesis by (simp only: getDisplayWidth_sum)
qed

lemma widthRatio_mono: "w1 \<le> w2 \<Longrightarrow> widthRatio w1 \<le> widthRatio w2"
  by (simp add: widthRatio_def)

lemma widthRatio_pos: "0 < widthRatio w"
  by (simp add: widthRatio_def)

lemma estimateTextWidth_nonneg: "0 \<le> fontSize \<Longrightarrow> 0 \<le> estimateTextWidth s fontSize w"
  using widthRatio_pos [of w] by (simp add: estimateTextWidth_def)

lemma estimateTextWidth_append:
  assumes "0 \<le> fontSize"
  shows "estimateTextWidth s fontSize w \<le> estimateTextWidth (s @ t) fontSize w"
proof -
  have "real (getDisplayWidth s) \<le> real (getDisplayWidth (s @ t))"
    using getDisplayWidth_append [of s t] by simp
  then have "real (getDisplayWidth s) * fontSize \<le> real (getDisplayWidth (s @ t)) * fontSize"
    using assms by (rule mult_right_mono)
  then show ?thesis
    unfolding estimateTextWidth_def
    using widthRatio_pos [of w] by (simp add: mult_right_mono)
qed

text \<open>
  Claim C8, as the code has it. A glyph (one step of the string iterator) counts 2 columns
  when its first UTF-16 code unit lies in one of the eight ranges listed by \<open>isFullWidth\<close>
  (Hangul Jamo, CJK punctuation, Hiragana, Katakana, Hangul compatibility Jamo, CJK unified
  ideographs, Hangul syllables, fullwidth forms) and 1 column otherwise; the estimate is
  the column count times the font size times a ratio that does not decrease with the
  weight (0.52 below 500, 0.55 from 500, 0.58 from 600); for a font size that is not
  negative the estimate is not negative and does not decrease when text is appended; the
  empty text gives 0.
\<close>

theorem estimateTextWidth_listed_ranges:
  "getDisplayWidth s =
     sum_list (map (\<lambda>glyph. if inListedRange (hd glyph) then 2 else 1) (stringIterator s))
   \<and> estimateTextWidth s fontSize fontWeight
       = real (getDisplayWidth s) * (fontSize * widthRatio fontWeight)
   \<and> (w1 \<le> w2 \<longrightarrow> widthRatio w1 \<le> widthRatio w2)
   \<and> widthRatio 400 < widthRatio 500 \<and> widthRatio 500 < widthRatio 600
   \<and> (0 \<le> fontSize \<longrightarrow> 0 \<le> estimateTextWidth s fontSize fontWeight)
   \<and> (0 \<le> fontSize \<longrightarrow>
        estimateTextWidth s fontSize fontWeight \<le> estimateTextWidth (s @ t) fontSize fontWeight)
   \<and> estimateTextWidth [] fontSize fontWeight = 0"
proof -
  have "estimateTextWidth [] fontSize fontWeight = 0"
    by (simp add: estimateTextWidth_def getDisplayWidth_def)
  moreover have "widthRatio 400 < widthRatio 500 \<and> widthRatio 500 < widthRatio 600"
    by (simp add: widthRatio_def)
  moreover have "estimateTextWidth s fontSize fontWeight
       = real (getDisplayWidth s) * (fontSize * widthRatio fontWeight)"
    by (simp add: estimateTextWidth_def)
  ultimately show ?thesis
    using getDisplayWidth_listed [of s] widthRatio_mono [of w1 w2]
      estimateTextWidth_nonneg [of fontSize s fontWeight]
      estimateTextWidth_append [of fontSize s fontWeight t]
    by blast
qed

text \<open>
  Witness for C8: the text U+4E2D U+0041 at 13px, weight 500, extended by U+0042.
\<close>

theorem estimateTextWidth_listed_ranges_witness:
  "(400::real) \<le> 600 \<and> (0::real) \<le> 13
   \<and> getDisplayWidth [0x4e2d, 0x41] = 3
   \<and> widthRatio 400 \<le> widthRatio 600
   \<and> 0 \<le> estimateTextWidth [0x4e2d, 0x41] 13 500
   \<and> estimateTextWidth [0x4e2d, 0x41] 13 500 \<le> estimateTextWidth ([0x4e2d, 0x41] @ [0x42]) 13 500"
  using estimateTextWidth_listed_ranges [of "[0x4e2d, 0x41]" 13 500 400 600 "[0x42]"]
  by (simp add: estimateTextWidth_def getDisplayWidth_def charColumns_def isFullWidth_def
      widthRatio_def inListedRange_def isHighSurrogate_def isLowSurrogate_def)

text \<open>
  Counterexample to C8 as stated: the emoji U+1F600 is one glyph for the iterator, its
  first code unit D83D is in none of the ranges, and it counts one column, not two.
\<close>

theorem emoji_counts_one_column:
  "stringIterator grinningFace = [grinningFace]
   \<and> getDisplayWidth grinningFace = 1
   \<and> estimateTextWidth grinningFace 13 500 \<noteq> 2 * 13 * widthRatio 500"
  by (simp add: estimateTextWidth_def widthRatio_def grinningFace_def getDisplayWidth_def
      charColumns_def isFullWidth_def isHighSurrogate_def isLowSurrogate_def)

section \<open>Element sizing\<close>

lemma textLines_cases:
  "textLines element =
     (e_label element, FONT_SIZES_nodeLabel, FONT_WEIGHTS_nodeLabel)
     # (if truthy (e_technology element)
        then [(bracketed (the (e_technology element)), C4_techFontSize, C4_techFontWeight)] else [])
     @ (if truthy (e_description element)
        then [(the (e_description element), C4_descFontSize, C4_descFontWeight)] else [])"
  by (simp add: textLines_def truthy_def split: option.splits)

lemma widestLine_unfold:
  "widestLine element =
     (let labelW = estimateTextWidth (e_label element) FONT_SIZES_nodeLabel FONT_WEIGHTS_nodeLabel;
          m1 = (if truthy (e_technology element)
                then max labelW (estimateTextWidth (bracketed (the (e_technology element)))
                                   C4_techFontSize C4_techFontWeight)
                else labelW)
      in if truthy (e_description element)
         then max m1 (estimateTextWidth (the (e_description element)) C4_descFontSize C4_descFontWeight)
         else m1)"
  unfolding widestLine_def textLines_cases
  by (simp add: Let_def max.commute max.left_commute)

lemma length_textLines:
  "length (textLines element) =
     1 + (if truthy (e_technology element) then 1 else 0)
       + (if truthy (e_description element) then 1 else 0)"
  unfolding textLines_cases by simp

text \<open>
  Claim C7. For an element that is not a Person the box is as wide as the larger of 160 and
  the widest estimated line (label, bracketed technology, description, each in its font)
  plus 2 * 16, and as high as the larger of 80 and the number of text lines times 18 plus
  2 * 12; a Person is 160 by 180 whatever its text.
\<close>

theorem calculateElementSize_rule:
  "(e_kind element \<noteq> Person \<longrightarrow>
      s_width (calculateElementSize element) = max 160 (widestLine element + 16 * 2)
    \<and> s_height (calculateElementSize element)
        = max 80 (real (length (textLines element)) * 18 + 12 * 2))
   \<and> (e_kind element = Person \<longrightarrow>
      s_width (calculateElementSize element) = 160
    \<and> s_height (calculateElementSize element) = 180)"
  unfolding widestLine_unfold length_textLines
  by (simp add: calculateElementSize_def Let_def C4_personWidth_def C4_personHeight_def
      C4_minBoxWidth_def C4_minBoxHeight_def C4_boxPadX_def C4_boxPadY_def C4_lineHeight_def)

text \<open>
  Witness for C7: the container \<open>apiGateway\<close> (three lines, the description the widest)
  and the person \<open>customer\<close>.
\<close>

theorem calculateElementSize_rule_witness:
  "e_kind apiGateway \<noteq> Person
   \<and> widestLine apiGateway = 217.36
   \<and> length (textLines apiGateway) = 3
   \<and> s_width (calculateElementSize apiGateway) = 249.36
   \<and> s_height (calculateElementSize apiGateway) = 80
   \<and> e_kind customer = Person
   \<and> s_width (calculateElementSize customer) = 160
   \<and> s_height (calculateElementSize customer) = 180"
  using calculateElementSize_rule [of apiGateway] calculateElementSize_rule [of customer]
  by (simp add: widestLine_def textLines_def apiGateway_def customer_def text_eval)

section \<open>The empty diagram\<close>

text \<open>
  Claim C4. A diagram without elements is laid out as the zero-size result with empty
  lists, by the C4 and by the ArchiMate entry point, whatever the layout engine would do:
  it is not called, and nothing is thrown.
\<close>

theorem empty_diagram_zero_size:
  "(d_elements c4 = [] \<longrightarrow>
      layoutC4Diagram dagre_layout c4 =
        Inr \<lparr>pd_width = 0, pd_height = 0, pd_title = None, pd_elements = [],
             pd_relationships = [], pd_boundaries = []\<rparr>)
   \<and> (ad_elements archimate = [] \<longrightarrow>
      layoutArchiMateDiagram dagre_layout archimate =
        Inr \<lparr>pad_width = 0, pad_height = 0, pad_layers = [], pad_elements = [],
             pad_relationships = []\<rparr>)"
  by (simp add: layoutC4Diagram_def layoutArchiMateDiagram_def)

text \<open>
  Witness for C4: the two empty diagrams, with a layout engine that always throws.
\<close>

theorem empty_diagram_zero_size_witness:
  "d_elements emptyC4Diagram = []
   \<and> layoutC4Diagram throwingDagre emptyC4Diagram =
        Inr \<lparr>pd_width = 0, pd_height = 0, pd_title = None, pd_elements = [],
             pd_relationships = [], pd_boundaries = []\<rparr>
   \<and> ad_elements emptyArchiMateDiagram = []
   \<and> layoutArchiMateDiagram throwingDagre emptyArchiMateDiagram =
        Inr \<lparr>pad_width = 0, pad_height = 0, pad_layers = [], pad_elements = [],
             pad_relationships = []\<rparr>"
  using empty_diagram_zero_size [of emptyC4Diagram throwingDagre emptyArchiMateDiagram]
  by (simp add: emptyC4Diagram_def emptyArchiMateDiagram_def)

section \<open>Layer bands share origin and width\<close>

lemma fold_min_Min: "fold min xs (a::real) = Min (set (a # xs))"
  by (simp only: Min.set_eq_fold)

lemma fold_max_Max: "fold max xs (a::real) = Max (set (a # xs))"
  by (simp only: Max.set_eq_fold)

lemma normalizeLayers_x:
  assumes "l \<in> set (normalizeLayers bands)"
  shows "pl_x l = Min (set (map pl_x bands))"
  using assms
  by (cases bands) (auto simp add: normalizeLayers_def Let_def fold_min_Min)

lemma normalizeLayers_width:
  assumes "l \<in> set (normalizeLayers bands)"
  shows "pl_width l = Max (set (map layerRight bands)) - Min (set (map pl_x bands))"
  using assms
  by (cases bands) (auto simp add: normalizeLayers_def Let_def fold_min_Min fold_max_Max layerRight_def)

lemma normalizeLayers_kept:
  "map pl_name (normalizeLayers bands) = map pl_name bands
   \<and> map pl_y (normalizeLayers bands) = map pl_y bands
   \<and> map pl_height (normalizeLayers bands) = map pl_height bands"
  by (cases bands) (simp_all add: normalizeLayers_def Let_def comp_def)

lemma sizeLayers_no_elements: "sizeLayers layers [] = []"
  by (simp add: sizeLayers_def layerBand_def)

lemma layout_layers:
  assumes "layoutArchiMateDiagram dagre_layout diagram = Inr result"
  shows "pad_layers result
           = normalizeLayers (sizeLayers (presentLayers diagram) (pad_elements result))"
proof (cases "ad_elements diagram = []")
  case True
  with assms have "result = \<lparr>pad_width = 0, pad_height = 0, pad_layers = [], pad_elements = [],
             pad_relationships = []\<rparr>"
    by (simp add: layoutArchiMateDiagram_def)
  then show ?thesis
    by (simp add: sizeLayers_no_elements normalizeLayers_def)
next
  case False
  with assms show ?thesis
    by (auto simp add: layoutArchiMateDiagram_def Let_def split: sum.splits)
qed

text \<open>
  Claim C6. The layer bands of an ArchiMate layout are the bands sized one by one from the
  positioned elements of each present layer, normalized afterwards: every band gets the
  same x, the smallest x of the individual bands, and the same width, reaching from there
  to the largest right edge of the individual bands, so that it covers each of them; name,
  y and height of a band stay as sized.
\<close>

theorem layer_bands_normalized:
  assumes "layoutArchiMateDiagram dagre_layout diagram = Inr result"
    and "bands = sizeLayers (presentLayers diagram) (pad_elements result)"
  shows "pad_layers result = normalizeLayers bands
    \<and> (\<forall>l \<in> set (pad_layers result).
          pl_x l = Min (set (map pl_x bands))
        \<and> pl_width l = Max (set (map layerRight bands)) - Min (set (map pl_x bands))
        \<and> (\<forall>l' \<in> set (pad_layers result). pl_x l = pl_x l' \<and> pl_width l = pl_width l')
        \<and> (\<forall>band \<in> set bands. pl_x l \<le> pl_x band \<and> layerRight band \<le> layerRight l))
    \<and> map pl_name (pad_layers result) = map pl_name bands
    \<and> map pl_y (pad_layers result) = map pl_y bands
    \<and> map pl_height (pad_layers result) = map pl_height bands"
proof -
  have eq: "pad_layers result = normalizeLayers bands"
    using assms by (simp add: layout_layers)
  have x: "pl_x l = Min (set (map pl_x bands))" if "l \<in> set (pad_layers result)" for l
    using that eq normalizeLayers_x by simp
  have w: "pl_width l = Max (set (map layerRight bands)) - Min (set (map pl_x bands))"
    if "l \<in> set (pad_layers result)" for l
    using that eq normalizeLayers_width by simp
  have cover: "pl_x l \<le> pl_x band \<and> layerRight band \<le> layerRight l"
    if "l \<in> set (pad_layers result)" and "band \<in> set bands" for l band
  proof -
    have "Min (set (map pl_x bands)) \<le> pl_x band"
      using that(2) by (intro Min_le) auto
    moreover have "layerRight band \<le> Max (set (map layerRight bands))"
      using that(2) by (intro Max_ge) auto
    ultimately show ?thesis
      using x [OF that(1)] w [OF that(1)] by (simp add: layerRight_def)
  qed
  show ?thesis
    using eq x w cover normalizeLayers_kept [of bands] by simp
qed

text \<open>
  Witness for C6: \<open>crmDiagram\<close>, whose business band is sized to x 40 and right edge 200
  and whose application band to x 20 and right edge 340; both end at x 20 with width 320.
\<close>

theorem layer_bands_normalized_witness:
  "layoutArchiMateDiagram crmDagre crmDiagram = Inr crmResult
   \<and> map pl_x (sizeLayers (presentLayers crmDiagram) (pad_elements crmResult)) = [40, 20]
   \<and> map layerRight (sizeLayers (presentLayers crmDiagram) (pad_elements crmResult)) = [200, 340]
   \<and> map pl_x (pad_layers crmResult) = [20, 20]
   \<and> map pl_width (pad_layers crmResult) = [320, 320]
   \<and> map layerRight (pad_layers crmResult) = [340, 340]"
proof -
  have bands: "sizeLayers (presentLayers crmDiagram) (pad_elements crmResult) =
      [\<lparr>pl_name = business, pl_x = 40, pl_y = - 4, pl_width = 160, pl_height = 114\<rparr>,
       \<lparr>pl_name = application, pl_x = 20, pl_y = 166, pl_width = 320, pl_height = 114\<rparr>]"
    unfolding crmPresentLayers
    by (simp add: sizeLayers_def layerBand_def crmResult_def Let_def
        ARCHIMATE_layerPadding_def ARCHIMATE_layerLabelHeight_def)
  have layers: "pad_layers crmResult =
      [\<lparr>pl_name = business, pl_x = 20, pl_y = - 4, pl_width = 320, pl_height = 114\<rparr>,
       \<lparr>pl_name = application, pl_x = 20, pl_y = 166, pl_width = 320, pl_height = 114\<rparr>]"
    by (simp add: crmResult_def)
  show ?thesis
    using layer_bands_normalized [OF crmLayout refl]
    unfolding bands layers
    by (simp add: crmLayout layerRight_def normalizeLayers_def)
qed

section \<open>One relationship per pair of end points\<close>

subsection \<open>The graph operations\<close>

lemma update_absent: "map_of al k = None \<Longrightarrow> AList.update k v al = al @ [(k, v)]"
  by (induction al) (auto split: if_splits)

lemma g_edges_ensureNode: "g_edges (ensureNode g v) = g_edges g"
  by (simp add: ensureNode_def)

lemma g_edges_setNode: "g_edges (setNode g v val) = g_edges g"
  by (simp add: setNode_def)

lemma g_edges_setEdge: "g_edges (setEdge g v w val) = AList.update (v, w) val (g_edges g)"
  by (simp add: setEdge_def g_edges_ensureNode update_absent)

lemma map_of_snoc_None:
  "(case map_of (al @ [(v, None)]) u of Some (Some l) \<Rightarrow> Some l | _ \<Rightarrow> None)
   = (case map_of al u of Some (Some l) \<Rightarrow> Some l | _ \<Rightarrow> None)"
  by (induction al) (auto split: option.splits)

lemma node_ensureNode: "node (ensureNode g v) u = node g u"
  by (simp add: ensureNode_def node_def map_of_snoc_None del: map_of_append)

lemma node_setEdge: "node (setEdge g v w val) u = node g u"
  by (simp add: setEdge_def node_def [of "g\<lparr>g_edges := _\<rparr>"] node_def [of "_\<lparr>g_edges := _\<rparr>"])
     (simp add: node_def [symmetric] node_ensureNode)

lemma node_setNode: "node (setNode g v val) u = (if u = v then Some val else node g u)"
  by (simp add: setNode_def node_def update_conv')

subsection \<open>Results of collect and foldE\<close>

lemma collect_Inr:
  "collect rs = Inr ys \<Longrightarrow> rs = map Inr ys"
  by (induction rs arbitrary: ys) (auto split: sum.splits)

lemma collect_map_Inr:
  assumes "collect (map f xs) = Inr ys"
  shows "length ys = length xs \<and> (\<forall>n < length xs. f (xs ! n) = Inr (ys ! n))"
proof -
  have eq: "map f xs = map Inr ys" using assms by (rule collect_Inr)
  then have len: "length ys = length xs" by (metis length_map)
  moreover have "f (xs ! n) = Inr (ys ! n)" if "n < length xs" for n
    using that eq len by (metis nth_map)
  ultimately show ?thesis by simp
qed

lemma collect_total:
  "(\<forall>r \<in> set rs. \<exists>y. r = Inr y) \<Longrightarrow> \<exists>ys. collect rs = Inr ys"
  by (induction rs) (auto split: sum.splits)

subsection \<open>The edges of the C4 graph\<close>

lemma c4AddEdges_snoc:
  "c4AddEdges (rels @ [x]) g
     = setEdge (c4AddEdges rels g) (r_from x) (r_to x) (c4EdgeLabel (length rels) x)"
  by (simp add: c4AddEdges_def enumerate_append_eq)

lemma c4AddEdges_Nil: "c4AddEdges [] g = g"
  by (simp add: c4AddEdges_def)

lemma node_c4AddEdges: "node (c4AddEdges rels g) u = node g u"
  by (induction rels rule: rev_induct) (simp_all add: c4AddEdges_Nil c4AddEdges_snoc node_setEdge)

lemma lastWith_snoc_new: "lastWith (rels @ [x]) (length rels)"
  by (simp add: lastWith_def)

lemma lastWith_snoc_old:
  assumes "lastWith rels i" and "endpoints (rels ! i) \<noteq> endpoints x"
  shows "lastWith (rels @ [x]) i"
  using assms by (auto simp add: lastWith_def nth_append)

lemma c4_edges_invariant:
  assumes "g_edges g = []"
  shows "distinct (map fst (g_edges (c4AddEdges rels g)))
    \<and> fst ` set (g_edges (c4AddEdges rels g)) = endpoints ` set rels
    \<and> (\<forall>k lbl. map_of (g_edges (c4AddEdges rels g)) k = Some lbl \<longrightarrow>
          (\<exists>i. lastWith rels i \<and> endpoints (rels ! i) = k \<and> lbl = c4EdgeLabel i (rels ! i)))"
proof (induction rels rule: rev_induct)
  case Nil
  then show ?case using assms by (simp add: c4AddEdges_Nil)
next
  case (snoc x rels)
  let ?es = "g_edges (c4AddEdges rels g)"
  have es': "g_edges (c4AddEdges (rels @ [x]) g)
      = AList.update (endpoints x) (c4EdgeLabel (length rels) x) ?es"
    by (simp add: c4AddEdges_snoc g_edges_setEdge endpoints_def)
  have d: "distinct (map fst (AList.update (endpoints x) (c4EdgeLabel (length rels) x) ?es))"
    using snoc by (simp add: distinct_update)
  have keys: "fst ` set (AList.update (endpoints x) (c4EdgeLabel (length rels) x) ?es)
      = endpoints ` set (rels @ [x])"
    using snoc by (auto simp add: dom_update)
  have labels: "\<exists>i. lastWith (rels @ [x]) i \<and> endpoints ((rels @ [x]) ! i) = k
         \<and> lbl = c4EdgeLabel i ((rels @ [x]) ! i)"
    if look: "map_of (AList.update (endpoints x) (c4EdgeLabel (length rels) x) ?es) k = Some lbl"
    for k lbl
  proof (cases "k = endpoints x")
    case True
    with look have "lbl = c4EdgeLabel (length rels) x"
      by (simp add: update_conv')
    with True show ?thesis
      using lastWith_snoc_new [of rels x] by (intro exI [of _ "length rels"]) simp
  next
    case False
    with look have "map_of ?es k = Some lbl"
      by (simp add: update_conv')
    with snoc obtain i where i: "lastWith rels i" "endpoints (rels ! i) = k"
        "lbl = c4EdgeLabel i (rels ! i)"
      by blast
    have "i < length rels" using i(1) by (simp add: lastWith_def)
    moreover have "lastWith (rels @ [x]) i"
      using i False by (intro lastWith_snoc_old) simp_all
    ultimately show ?thesis
      using i by (intro exI [of _ i]) (simp add: nth_append)
  qed
  show ?case
    unfolding es' using d keys labels by blast
qed

subsection \<open>The nodes of the C4 graph\<close>

lemma fold_update_defined:
  "x \<in> k ` set es \<or> map_of al x \<noteq> None \<Longrightarrow>
   map_of (fold (\<lambda>e m. AList.update (k e) (v e) m) es al) x \<noteq> None"
proof (induction es arbitrary: al)
  case Nil
  then show ?case by simp
next
  case (Cons e es)
  have "x \<in> k ` set es \<or> map_of (AList.update (k e) (v e) al) x \<noteq> None"
    using Cons.prems by (auto simp add: update_conv')
  then show ?case
    using Cons.IH by simp
qed

lemma c4ElementSizes_defined:
  "e \<in> set es \<Longrightarrow> map_of (c4ElementSizes es) (e_alias e) \<noteq> None"
  unfolding c4ElementSizes_def by (rule fold_update_defined) simp

lemma foldE_c4AddNode:
  assumes "\<forall>e \<in> set es. map_of sizes (e_alias e) \<noteq> None"
  shows "\<exists>g'. foldE (c4AddNode sizes) es g = Inr g' \<and> g_edges g' = g_edges g
           \<and> (\<forall>u. node g u \<noteq> None \<longrightarrow> node g' u \<noteq> None)
           \<and> (\<forall>e \<in> set es. node g' (e_alias e) \<noteq> None)"
  using assms
proof (induction es arbitrary: g)
  case Nil
  then show ?case by simp
next
  case (Cons e es)
  then obtain sz where sz: "map_of sizes (e_alias e) = Some sz" by auto
  let ?g1 = "setNode g (e_alias e)
      \<lparr>nl_width = s_width sz, nl_height = s_height sz, nl_layer = None\<rparr>"
  have step: "c4AddNode sizes e g = Inr ?g1"
    by (simp add: c4AddNode_def sz)
  from Cons obtain g' where g': "foldE (c4AddNode sizes) es ?g1 = Inr g'"
      "g_edges g' = g_edges ?g1" "\<forall>u. node ?g1 u \<noteq> None \<longrightarrow> node g' u \<noteq> None"
      "\<forall>e \<in> set es. node g' (e_alias e) \<noteq> None"
    by (metis list.set_intros(2))
  have "node ?g1 (e_alias e) \<noteq> None" by (simp add: node_setNode)
  moreover have "node g u \<noteq> None \<longrightarrow> node ?g1 u \<noteq> None" for u
    by (simp add: node_setNode)
  ultimately show ?case
    using g' step by (auto simp add: g_edges_setNode)
qed

lemma buildC4Graph_returns:
  "\<exists>g0. buildC4Graph diagram = Inr (c4AddEdges (d_relationships diagram) g0)
     \<and> g_edges g0 = []
     \<and> (\<forall>e \<in> set (d_elements diagram). node g0 (e_alias e) \<noteq> None)"
proof -
  have "\<forall>e \<in> set (d_elements diagram).
          map_of (c4ElementSizes (d_elements diagram)) (e_alias e) \<noteq> None"
    by (simp add: c4ElementSizes_defined)
  from foldE_c4AddNode [OF this, of "newGraph C4_graphLabel"]
  obtain g0 where "foldE (c4AddNode (c4ElementSizes (d_elements diagram))) (d_elements diagram)
         (newGraph C4_graphLabel) = Inr g0"
      "g_edges g0 = g_edges (newGraph C4_graphLabel)"
      "\<forall>e \<in> set (d_elements diagram). node g0 (e_alias e) \<noteq> None"
    by blast
  then show ?thesis
    by (intro exI [of _ g0]) (simp add: buildC4Graph_def newGraph_def)
qed

subsection \<open>The relationships of the C4 layout\<close>

lemma c4_edge_label:
  assumes "g_edges g0 = []" and "(k, lbl) \<in> set (g_edges (c4AddEdges rels g0))"
  shows "\<exists>i. lastWith rels i \<and> endpoints (rels ! i) = k \<and> lbl = c4EdgeLabel i (rels ! i)"
proof -
  have "distinct (map fst (g_edges (c4AddEdges rels g0)))"
    using c4_edges_invariant [OF assms(1)] by blast
  with assms(2) have "map_of (g_edges (c4AddEdges rels g0)) k = Some lbl"
    by simp
  then show ?thesis
    using c4_edges_invariant [OF assms(1), of rels] by blast
qed

lemma c4PositionRelationship_edge:
  assumes "g_edges g0 = []" and "(k, lbl) \<in> set (g_edges (c4AddEdges rels g0))"
  shows "\<exists>i p. lastWith rels i \<and> endpoints (rels ! i) = k
           \<and> c4PositionRelationship rels g geo (k, lbl) = Inr p
           \<and> positionedEndpoints p = k
           \<and> pr_label p = r_label (rels ! i) \<and> pr_technology p = r_technology (rels ! i)"
proof -
  obtain i where i: "lastWith rels i" "endpoints (rels ! i) = k" "lbl = c4EdgeLabel i (rels ! i)"
    using c4_edge_label [OF assms] by blast
  have "i < length rels" using i(1) by (simp add: lastWith_def)
  then show ?thesis
    using i
    by (intro exI [of _ i])
       (auto simp add: c4PositionRelationship_def c4EdgeLabel_def positionedEndpoints_def
          endpoints_def Let_def split: prod.splits)
qed

lemma c4_relationships:
  assumes "g_edges g0 = []"
    and "collect (map (c4PositionRelationship rels g geo) (g_edges (c4AddEdges rels g0))) = Inr out"
  shows "map positionedEndpoints out = map fst (g_edges (c4AddEdges rels g0))
    \<and> (\<forall>p \<in> set out. \<exists>i. lastWith rels i \<and> positionedEndpoints p = endpoints (rels ! i)
          \<and> pr_label p = r_label (rels ! i) \<and> pr_technology p = r_technology (rels ! i))"
proof -
  let ?es = "g_edges (c4AddEdges rels g0)"
  have len: "length out = length ?es"
    and nth: "\<And>n. n < length ?es \<Longrightarrow> c4PositionRelationship rels g geo (?es ! n) = Inr (out ! n)"
    using collect_map_Inr [OF assms(2)] by simp_all
  have each: "\<exists>i. lastWith rels i \<and> endpoints (rels ! i) = fst (?es ! n)
        \<and> positionedEndpoints (out ! n) = fst (?es ! n)
        \<and> pr_label (out ! n) = r_label (rels ! i)
        \<and> pr_technology (out ! n) = r_technology (rels ! i)"
    if n: "n < length ?es" for n
  proof -
    have "(fst (?es ! n), snd (?es ! n)) \<in> set ?es"
      using n by simp
    from c4PositionRelationship_edge [OF assms(1) this, of g geo] nth [OF n]
    show ?thesis by auto
  qed
  have "map positionedEndpoints out = map fst ?es"
    using len each by (intro nth_equalityI) auto
  moreover have "\<exists>i. lastWith rels i \<and> positionedEndpoints p = endpoints (rels ! i)
          \<and> pr_label p = r_label (rels ! i) \<and> pr_technology p = r_technology (rels ! i)"
    if "p \<in> set out" for p
  proof -
    from that obtain n where "n < length out" "p = out ! n"
      by (auto simp add: in_set_conv_nth)
    then show ?thesis
      using each [of n] len by auto
  qed
  ultimately show ?thesis by blast
qed

lemma c4_relationships_total:
  assumes "g_edges g0 = []"
  shows "\<exists>out. collect (map (c4PositionRelationship rels g geo) (g_edges (c4AddEdges rels g0))) = Inr out"
proof (rule collect_total, rule ballI)
  fix r assume "r \<in> set (map (c4PositionRelationship rels g geo) (g_edges (c4AddEdges rels g0)))"
  then obtain k lbl where "(k, lbl) \<in> set (g_edges (c4AddEdges rels g0))"
      "r = c4PositionRelationship rels g geo (k, lbl)"
    by auto
  then show "\<exists>y. r = Inr y"
    using c4PositionRelationship_edge [OF assms, of k lbl rels g geo] by auto
qed

lemma c4_elements_total:
  assumes "\<forall>e \<in> set es. node g (e_alias e) \<noteq> None"
  shows "\<exists>out. collect (map (c4PositionElement g geo) es) = Inr out"
proof (rule collect_total, rule ballI)
  fix r assume "r \<in> set (map (c4PositionElement g geo) es)"
  then obtain e where "e \<in> set es" "r = c4PositionElement g geo e" by auto
  then show "\<exists>y. r = Inr y"
    using assms by (auto simp add: c4PositionElement_def Let_def)
qed

subsection \<open>The C4 layout as a whole\<close>

lemma layoutC4Diagram_cases:
  assumes "d_elements diagram \<noteq> []"
  shows "\<exists>g0. g_edges g0 = []
     \<and> buildC4Graph diagram = Inr (c4AddEdges (d_relationships diagram) g0)
     \<and> (\<forall>message. dagre_layout (c4AddEdges (d_relationships diagram) g0) = Inl message \<longrightarrow>
          layoutC4Diagram dagre_layout diagram
            = Inl (Error (''Dagre layout failed (C4 diagram): '' @ message)))
     \<and> (\<forall>geo. dagre_layout (c4AddEdges (d_relationships diagram) g0) = Inr geo \<longrightarrow>
          (\<exists>result.
             layoutC4Diagram dagre_layout diagram = Inr result
             \<and> collect (map (c4PositionRelationship (d_relationships diagram)
                               (c4AddEdges (d_relationships diagram) g0) geo)
                          (g_edges (c4AddEdges (d_relationships diagram) g0)))
                 = Inr (pd_relationships result)))"
proof -
  let ?rels = "d_relationships diagram"
  obtain g0 where g0: "buildC4Graph diagram = Inr (c4AddEdges ?rels g0)" "g_edges g0 = []"
      "\<forall>e \<in> set (d_elements diagram). node g0 (e_alias e) \<noteq> None"
    using buildC4Graph_returns by blast
  let ?g = "c4AddEdges ?rels g0"
  have thrown: "layoutC4Diagram dagre_layout diagram
            = Inl (Error (''Dagre layout failed (C4 diagram): '' @ message))"
    if "dagre_layout ?g = Inl message" for message
    using that assms g0(1) by (simp add: layoutC4Diagram_def)
  have returned: "\<exists>result. layoutC4Diagram dagre_layout diagram = Inr result
             \<and> collect (map (c4PositionRelationship ?rels ?g geo) (g_edges ?g))
                 = Inr (pd_relationships result)"
    if geo: "dagre_layout ?g = Inr geo" for geo
  proof -
    have "\<forall>e \<in> set (d_elements diagram). node ?g (e_alias e) \<noteq> None"
      using g0(3) by (simp add: node_c4AddEdges)
    then obtain pes where pes: "collect (map (c4PositionElement ?g geo) (d_elements diagram)) = Inr pes"
      using c4_elements_total by blast
    obtain out where out: "collect (map (c4PositionRelationship ?rels ?g geo) (g_edges ?g)) = Inr out"
      using c4_relationships_total [OF g0(2)] by blast
    show ?thesis
      using assms g0(1) geo pes out by (simp add: layoutC4Diagram_def Let_def)
  qed
  show ?thesis
    using g0(2) g0(1) thrown returned by blast
qed

lemma layoutC4Diagram_relationships:
  assumes "d_elements diagram \<noteq> []" and "layoutC4Diagram dagre_layout diagram = Inr result"
  shows "\<exists>g0 g geo. g_edges g0 = [] \<and> g = c4AddEdges (d_relationships diagram) g0
     \<and> buildC4Graph diagram = Inr g \<and> dagre_layout g = Inr geo
     \<and> collect (map (c4PositionRelationship (d_relationships diagram) g geo) (g_edges g))
         = Inr (pd_relationships result)"
proof -
  obtain g0 where g0: "g_edges g0 = []"
      "buildC4Graph diagram = Inr (c4AddEdges (d_relationships diagram) g0)"
      "\<forall>message. dagre_layout (c4AddEdges (d_relationships diagram) g0) = Inl message \<longrightarrow>
          layoutC4Diagram dagre_layout diagram
            = Inl (Error (''Dagre layout failed (C4 diagram): '' @ message))"
      "\<forall>geo. dagre_layout (c4AddEdges (d_relationships diagram) g0) = Inr geo \<longrightarrow>
          (\<exists>result.
             layoutC4Diagram dagre_layout diagram = Inr result
             \<and> collect (map (c4PositionRelationship (d_relationships diagram)
                               (c4AddEdges (d_relationships diagram) g0) geo)
                          (g_edges (c4AddEdges (d_relationships diagram) g0)))
                 = Inr (pd_relationships result))"
    using layoutC4Diagram_cases [OF assms(1), of dagre_layout] by blast
  show ?thesis
  proof (cases "dagre_layout (c4AddEdges (d_relationships diagram) g0)")
    case (Inl message)
    with g0(3) assms(2) show ?thesis by simp
  next
    case (Inr geo)
    with g0(4) assms(2) have "collect (map (c4PositionRelationship (d_relationships diagram)
                               (c4AddEdges (d_relationships diagram) g0) geo)
                          (g_edges (c4AddEdges (d_relationships diagram) g0)))
                 = Inr (pd_relationships result)"
      by auto
    with g0 Inr show ?thesis by blast
  qed
qed

text \<open>
  Claim C10, as the code has it. The graph of the C4 layout keeps one edge per ordered pair
  of end points, so a layout of a diagram with at least one element returns exactly one
  positioned relationship for each pair that occurs among the input relationships; it
  carries the label and the technology of the last input relationship with that pair, and
  the output list is strictly shorter than the input list as soon as a pair occurs twice.
\<close>

theorem one_relationship_per_pair:
  assumes "d_elements diagram \<noteq> []"
    and "layoutC4Diagram dagre_layout diagram = Inr result"
    and "rels = d_relationships diagram"
  shows "distinct (map positionedEndpoints (pd_relationships result))
    \<and> set (map positionedEndpoints (pd_relationships result)) = set (map endpoints rels)
    \<and> (\<forall>p \<in> set (pd_relationships result).
          \<exists>i. lastWith rels i \<and> positionedEndpoints p = endpoints (rels ! i)
             \<and> pr_label p = r_label (rels ! i) \<and> pr_technology p = r_technology (rels ! i))
    \<and> length (pd_relationships result) \<le> length rels
    \<and> (\<not> distinct (map endpoints rels) \<longrightarrow> length (pd_relationships result) < length rels)"
proof -
  obtain g0 g geo where g: "g_edges g0 = []" "g = c4AddEdges rels g0"
      "collect (map (c4PositionRelationship rels g geo) (g_edges g)) = Inr (pd_relationships result)"
    using layoutC4Diagram_relationships [OF assms(1,2)] assms(3) by blast
  let ?out = "pd_relationships result"
  have keys: "map positionedEndpoints ?out = map fst (g_edges g)"
    and last: "\<forall>p \<in> set ?out. \<exists>i. lastWith rels i \<and> positionedEndpoints p = endpoints (rels ! i)
          \<and> pr_label p = r_label (rels ! i) \<and> pr_technology p = r_technology (rels ! i)"
    using c4_relationships [OF g(1) g(3) [unfolded g(2)]] g(2) by simp_all
  have d: "distinct (map positionedEndpoints ?out)"
    using c4_edges_invariant [OF g(1), of rels] keys g(2) by simp
  have s: "set (map positionedEndpoints ?out) = set (map endpoints rels)"
    using c4_edges_invariant [OF g(1), of rels] keys g(2) by simp
  have "length ?out = card (set (map endpoints rels))"
    using d s distinct_card [of "map positionedEndpoints ?out"] by simp
  moreover have "card (set (map endpoints rels)) \<le> length rels"
    using card_length [of "map endpoints rels"] by simp
  moreover have "card (set (map endpoints rels)) \<noteq> length rels" if "\<not> distinct (map endpoints rels)"
    using that card_distinct [of "map endpoints rels"] by auto
  ultimately show ?thesis
    using d s last by auto
qed

text \<open>
  Witness for C10: \<open>ordersDiagram\<close>, whose first two relationships both go from
  \<open>customer\<close> to \<open>api\<close>; the layout returns two relationships, the first with the label
  and technology of the second input relationship.
\<close>

theorem one_relationship_per_pair_witness:
  "d_elements ordersDiagram \<noteq> []
   \<and> layoutC4Diagram ordersDagre ordersDiagram = Inr ordersResult
   \<and> map endpoints (d_relationships ordersDiagram)
       = [(''customer'', ''api''), (''customer'', ''api''), (''api'', ''customer'')]
   \<and> \<not> distinct (map endpoints (d_relationships ordersDiagram))
   \<and> map positionedEndpoints (pd_relationships ordersResult)
       = [(''customer'', ''api''), (''api'', ''customer'')]
   \<and> lastWith (d_relationships ordersDiagram) 1
   \<and> pr_label (pd_relationships ordersResult ! 0) = r_label (d_relationships ordersDiagram ! 1)
   \<and> pr_technology (pd_relationships ordersResult ! 0)
       = r_technology (d_relationships ordersDiagram ! 1)
   \<and> length (pd_relationships ordersResult) = 2
   \<and> length (d_relationships ordersDiagram) = 3"
proof -
  have last: "lastWith (d_relationships ordersDiagram) 1"
    by (simp add: lastWith_def ordersDiagram_def endpoints_def)
  have fields: "pr_label (pd_relationships ordersResult ! 0) = r_label (d_relationships ordersDiagram ! 1)"
      "pr_technology (pd_relationships ordersResult ! 0)
         = r_technology (d_relationships ordersDiagram ! 1)"
      "length (pd_relationships ordersResult) = 2" "length (d_relationships ordersDiagram) = 3"
    by (simp_all add: ordersResult_def ordersDiagram_def)
  show ?thesis
    using one_relationship_per_pair [OF ordersFacts(1) ordersLayout refl] last fields
    by (simp add: ordersFacts ordersLayout)
qed

text \<open>
  Counterexample to C10 as stated: a diagram without elements is answered before the graph
  is built, so the pair of its two relationships has no positioned relationship at all.
\<close>

theorem no_elements_no_relationships:
  "map endpoints (d_relationships unplacedDiagram) = [(''a'', ''b''), (''a'', ''b'')]
   \<and> layoutC4Diagram ordersDagre unplacedDiagram
       = Inr \<lparr>pd_width = 0, pd_height = 0, pd_title = None, pd_elements = [],
              pd_relationships = [], pd_boundaries = []\<rparr>"
  by (simp add: unplacedDiagram_def endpoints_def layoutC4Diagram_def)

section \<open>Ordering edges stay out of the output\<close>

subsection \<open>The edges of the ArchiMate graph\<close>

lemma set_update_subset: "set (AList.update k v al) \<subseteq> insert (k, v) (set al)"
  by (induction al) auto

lemma setEdge_entries:
  fixes g :: Graph
  assumes "\<forall>e \<in> set (g_edges g). P e" and "P ((v, w), val)"
  shows "\<forall>e \<in> set (g_edges (setEdge g v w val)). P e"
  using assms set_update_subset [of "(v, w)" val "g_edges g"]
  by (auto simp add: g_edges_setEdge)

lemma fold_entries:
  fixes g :: Graph
  assumes "\<forall>e \<in> set (g_edges g). P e"
    and "\<And>x g. x \<in> set xs \<Longrightarrow> \<forall>e \<in> set (g_edges g). P e \<Longrightarrow> \<forall>e \<in> set (g_edges (f x g)). P e"
  shows "\<forall>e \<in> set (g_edges (fold f xs g)). P e"
  using assms
proof (induction xs arbitrary: g)
  case Nil
  then show ?case by simp
next
  case (Cons x xs)
  have step: "\<forall>e \<in> set (g_edges (f x g)). P e"
    using Cons.prems(1) Cons.prems(2) [of x g] by simp
  have "\<forall>e \<in> set (g_edges (fold f xs (f x g))). P e"
  proof (rule Cons.IH [OF step])
    fix y and g' :: Graph assume "y \<in> set xs" "\<forall>e \<in> set (g_edges g'). P e"
    then show "\<forall>e \<in> set (g_edges (f y g')). P e"
      using Cons.prems(2) [of y g'] by simp
  qed
  then show ?case by simp
qed

lemma fold_node:
  fixes g :: Graph
  assumes "\<And>x g. node (f x g) u = node g u"
  shows "node (fold f xs g) u = node g u"
  by (induction xs arbitrary: g) (simp_all add: assms)

lemma node_addLayerEdges: "node (addLayerEdges diagram layers g) u = node g u"
  unfolding addLayerEdges_def
  by (rule fold_node) (simp add: node_setEdge split: prod.splits list.splits)

lemma node_addRelationshipEdges: "node (addRelationshipEdges diagram g) u = node g u"
  unfolding addRelationshipEdges_def
  by (rule fold_node) (simp add: node_setEdge split: prod.splits)

lemma addLayerEdges_entries:
  assumes "\<forall>e \<in> set (g_edges g). P e" and "\<And>k. P (k, layerEdgeLabel)"
  shows "\<forall>e \<in> set (g_edges (addLayerEdges diagram layers g)). P e"
  unfolding addLayerEdges_def
proof (rule fold_entries [OF assms(1)], goal_cases)
  case (1 x g)
  obtain u l where x: "x = (u, l)" by (cases x)
  show ?case
  proof (cases "layerElements diagram u")
    case Nil
    then show ?thesis using 1(2) by (simp add: x)
  next
    case upper: (Cons eu us)
    show ?thesis
    proof (cases "layerElements diagram l")
      case Nil
      then show ?thesis using 1(2) upper by (simp add: x)
    next
      case (Cons el ls)
      then show ?thesis
        using setEdge_entries [OF 1(2) assms(2), of "a_id eu" "a_id el"] upper
        by (simp add: x)
    qed
  qed
qed

lemma addRelationshipEdges_entries:
  assumes "\<forall>e \<in> set (g_edges g). P e"
    and "\<And>i. i < length (ad_relationships diagram) \<Longrightarrow>
           hasElement diagram (ar_source (ad_relationships diagram ! i)) \<Longrightarrow>
           hasElement diagram (ar_target (ad_relationships diagram ! i)) \<Longrightarrow>
           P ((ar_source (ad_relationships diagram ! i), ar_target (ad_relationships diagram ! i)),
              archimateEdgeLabel i (ad_relationships diagram ! i))"
  shows "\<forall>e \<in> set (g_edges (addRelationshipEdges diagram g)). P e"
  unfolding addRelationshipEdges_def
proof (rule fold_entries [OF assms(1)], goal_cases)
  case (1 x g)
  obtain i rel where ir: "x = (i, rel)" by (cases x)
  with 1(1) have i: "i < length (ad_relationships diagram)" "rel = ad_relationships diagram ! i"
    by (simp_all add: in_set_enumerate_eq)
  show ?case
  proof (cases "hasElement diagram (ar_source rel) \<and> hasElement diagram (ar_target rel)")
    case True
    then have "P ((ar_source rel, ar_target rel), archimateEdgeLabel i rel)"
      using assms(2) [of i] i by simp
    from setEdge_entries [OF 1(2) this] True show ?thesis
      by (simp add: ir)
  next
    case False
    then show ?thesis using 1(2) by (auto simp add: ir)
  qed
qed

lemma archimate_edges_invariant:
  assumes "g_edges g = []" and "rels = ad_relationships diagram"
  shows "\<forall>e \<in> set (g_edges (addRelationshipEdges diagram (addLayerEdges diagram layers g))).
           snd e = layerEdgeLabel
           \<or> (\<exists>i < length rels. snd e = archimateEdgeLabel i (rels ! i)
                \<and> fst e = (ar_source (rels ! i), ar_target (rels ! i))
                \<and> hasElement diagram (ar_source (rels ! i))
                \<and> hasElement diagram (ar_target (rels ! i)))"
proof (rule addRelationshipEdges_entries)
  show "\<forall>e \<in> set (g_edges (addLayerEdges diagram layers g)).
           snd e = layerEdgeLabel
           \<or> (\<exists>i < length rels. snd e = archimateEdgeLabel i (rels ! i)
                \<and> fst e = (ar_source (rels ! i), ar_target (rels ! i))
                \<and> hasElement diagram (ar_source (rels ! i))
                \<and> hasElement diagram (ar_target (rels ! i)))"
    by (rule addLayerEdges_entries) (simp_all add: assms(1))
next
  fix i assume "i < length (ad_relationships diagram)"
    "hasElement diagram (ar_source (ad_relationships diagram ! i))"
    "hasElement diagram (ar_target (ad_relationships diagram ! i))"
  then show "snd ((ar_source (ad_relationships diagram ! i), ar_target (ad_relationships diagram ! i)),
              archimateEdgeLabel i (ad_relationships diagram ! i)) = layerEdgeLabel
           \<or> (\<exists>j < length rels.
                snd ((ar_source (ad_relationships diagram ! i), ar_target (ad_relationships diagram ! i)),
                     archimateEdgeLabel i (ad_relationships diagram ! i))
                  = archimateEdgeLabel j (rels ! j)
                \<and> fst ((ar_source (ad_relationships diagram ! i), ar_target (ad_relationships diagram ! i)),
                        archimateEdgeLabel i (ad_relationships diagram ! i))
                  = (ar_source (rels ! j), ar_target (rels ! j))
                \<and> hasElement diagram (ar_source (rels ! j))
                \<and> hasElement diagram (ar_target (rels ! j)))"
    using assms(2) by auto
qed

subsection \<open>The ArchiMate layout as a whole\<close>

lemma archimateElementSizes_defined:
  assumes "entry \<in> set elements"
  shows "map_of (archimateElementSizes elements) (fst entry) \<noteq> None"
proof -
  have "archimateElementSizes elements
      = fold (\<lambda>e m. AList.update (fst e) (archimateElementSize (snd e)) m) elements []"
    by (simp add: archimateElementSizes_def case_prod_unfold)
  then show ?thesis
    using fold_update_defined [of "fst entry" fst elements "[]" "\<lambda>e. archimateElementSize (snd e)"]
      assms by simp
qed

lemma foldE_archimateAddNode:
  assumes "\<forall>entry \<in> set es. map_of sizes (fst entry) \<noteq> None"
  shows "\<exists>g'. foldE (archimateAddNode sizes) es g = Inr g' \<and> g_edges g' = g_edges g"
  using assms
proof (induction es arbitrary: g)
  case Nil
  then show ?case by simp
next
  case (Cons entry es)
  obtain i element where entry: "entry = (i, element)" by (cases entry)
  with Cons.prems obtain sz where sz: "map_of sizes i = Some sz" by auto
  let ?g1 = "setNode g i \<lparr>nl_width = s_width sz, nl_height = s_height sz,
                           nl_layer = Some (a_layer element)\<rparr>"
  have step: "archimateAddNode sizes entry g = Inr ?g1"
    by (simp add: archimateAddNode_def entry sz)
  from Cons obtain g' where "foldE (archimateAddNode sizes) es ?g1 = Inr g'"
      "g_edges g' = g_edges ?g1"
    by (metis list.set_intros(2))
  then show ?case
    using step by (simp add: g_edges_setNode)
qed

lemma buildArchiMateGraph_returns:
  "\<exists>g0. g_edges g0 = []
     \<and> buildArchiMateGraph diagram
         = Inr (addRelationshipEdges diagram (addLayerEdges diagram (presentLayers diagram) g0))"
proof -
  have "\<forall>entry \<in> set (ad_elements diagram).
          map_of (archimateElementSizes (ad_elements diagram)) (fst entry) \<noteq> None"
    by (simp add: archimateElementSizes_defined)
  from foldE_archimateAddNode [OF this, of "newGraph ARCHIMATE_graphLabel"]
  obtain g0 where "foldE (archimateAddNode (archimateElementSizes (ad_elements diagram)))
         (ad_elements diagram) (newGraph ARCHIMATE_graphLabel) = Inr g0"
      "g_edges g0 = g_edges (newGraph ARCHIMATE_graphLabel)"
    by blast
  then show ?thesis
    by (intro exI [of _ g0]) (simp add: buildArchiMateGraph_def newGraph_def)
qed

lemma archimatePositionRelationship_layerEdge:
  "archimatePositionRelationship rels g geo (k, layerEdgeLabel) = Inr []"
  by (simp add: archimatePositionRelationship_def layerEdgeLabel_def split: prod.splits)

lemma archimatePositionRelationship_real:
  assumes "i < length rels"
  shows "archimatePositionRelationship rels g geo ((v, w), archimateEdgeLabel i (rels ! i))
     = Inr [\<lparr>par_source = ar_source (rels ! i), par_target = ar_target (rels ! i),
             par_type = ar_type (rels ! i), par_label = ar_label (rels ! i),
             par_points = edgePath g geo v w\<rparr>]"
  using assms by (simp add: archimatePositionRelationship_def archimateEdgeLabel_def Let_def)

lemma archimatePositionRelationship_Inr:
  assumes "archimatePositionRelationship rels g geo e = Inr ps" and "p \<in> set ps"
  shows "\<exists>i < length rels. el_index (snd e) = Some i \<and> \<not> el_layerEdge (snd e)
           \<and> par_source p = ar_source (rels ! i) \<and> par_target p = ar_target (rels ! i)
           \<and> par_type p = ar_type (rels ! i) \<and> par_label p = ar_label (rels ! i)"
  using assms
  by (auto simp add: archimatePositionRelationship_def Let_def
      split: prod.splits if_splits option.splits)

lemma collect_concat_member:
  assumes "collect (map f es) = Inr outs" and "p \<in> set (concat outs)"
  shows "\<exists>e \<in> set es. \<exists>ps. f e = Inr ps \<and> p \<in> set ps"
proof -
  from assms(2) obtain ps where "ps \<in> set outs" "p \<in> set ps"
    by auto
  then obtain n where n: "n < length outs" "p \<in> set (outs ! n)"
    by (metis in_set_conv_nth)
  have "length outs = length es" "\<forall>n < length es. f (es ! n) = Inr (outs ! n)"
    using collect_map_Inr [OF assms(1)] by simp_all
  with n show ?thesis
    by (intro bexI [of _ "es ! n"] exI [of _ "outs ! n"]) simp_all
qed

lemma collect_concat_length:
  assumes "collect (map f es) = Inr outs"
    and "\<forall>e \<in> set es. (Q e \<longrightarrow> f e = Inr []) \<and> (\<not> Q e \<longrightarrow> (\<exists>p. f e = Inr [p]))"
  shows "length (concat outs) = length (filter (\<lambda>e. \<not> Q e) es)"
  using assms
proof (induction es arbitrary: outs)
  case Nil
  then show ?case by simp
next
  case (Cons e es)
  from Cons.prems(1) obtain ps rest where split: "f e = Inr ps" "collect (map f es) = Inr rest"
      "outs = ps # rest"
    by (auto split: sum.splits)
  have "length (concat rest) = length (filter (\<lambda>e. \<not> Q e) es)"
    using Cons.IH [OF split(2)] Cons.prems(2) by simp
  moreover have "length ps = (if Q e then 0 else 1)"
    using Cons.prems(2) split(1) by auto
  ultimately show ?case
    by (simp add: split(3))
qed

lemma archimate_relationships_total:
  assumes "g_edges g0 = []"
    and "g = addRelationshipEdges diagram (addLayerEdges diagram layers g0)"
  shows "\<exists>outs. collect (map (archimatePositionRelationship (ad_relationships diagram) g' geo)
                           (g_edges g)) = Inr outs"
proof (rule collect_total, rule ballI)
  fix r assume "r \<in> set (map (archimatePositionRelationship (ad_relationships diagram) g' geo) (g_edges g))"
  then obtain e where e: "e \<in> set (g_edges g)"
      "r = archimatePositionRelationship (ad_relationships diagram) g' geo e"
    by auto
  from archimate_edges_invariant [OF assms(1) refl, of diagram layers] e(1) assms(2)
  have "snd e = layerEdgeLabel
      \<or> (\<exists>i < length (ad_relationships diagram).
            snd e = archimateEdgeLabel i (ad_relationships diagram ! i))"
    by blast
  then show "\<exists>y. r = Inr y"
  proof
    assume "snd e = layerEdgeLabel"
    then show ?thesis
      using archimatePositionRelationship_layerEdge [of "ad_relationships diagram" g' geo "fst e"] e(2)
      by (metis prod.collapse)
  next
    assume "\<exists>i < length (ad_relationships diagram).
            snd e = archimateEdgeLabel i (ad_relationships diagram ! i)"
    then obtain i where i: "i < length (ad_relationships diagram)"
        "snd e = archimateEdgeLabel i (ad_relationships diagram ! i)"
      by blast
    show ?thesis
      using archimatePositionRelationship_real [OF i(1), of g' geo "fst (fst e)" "snd (fst e)"] i(2) e(2)
      by (metis prod.collapse)
  qed
qed

lemma layoutArchiMateDiagram_cases:
  assumes "ad_elements diagram \<noteq> []"
  shows "\<exists>g0 g. g_edges g0 = []
     \<and> g = addRelationshipEdges diagram (addLayerEdges diagram (presentLayers diagram) g0)
     \<and> buildArchiMateGraph diagram = Inr g
     \<and> (\<forall>message. dagre_layout g = Inl message \<longrightarrow>
          layoutArchiMateDiagram dagre_layout diagram
            = Inl (Error (''Dagre layout failed (ArchiMate diagram): '' @ message)))
     \<and> (\<forall>geo. dagre_layout g = Inr geo \<longrightarrow>
          (\<exists>result outs.
             layoutArchiMateDiagram dagre_layout diagram = Inr result
             \<and> collect (map (archimatePositionRelationship (ad_relationships diagram) g geo) (g_edges g))
                 = Inr outs
             \<and> pad_relationships result = concat outs))"
proof -
  obtain g0 where g0: "g_edges g0 = []"
      "buildArchiMateGraph diagram
         = Inr (addRelationshipEdges diagram (addLayerEdges diagram (presentLayers diagram) g0))"
    using buildArchiMateGraph_returns by blast
  let ?g = "addRelationshipEdges diagram (addLayerEdges diagram (presentLayers diagram) g0)"
  have thrown: "layoutArchiMateDiagram dagre_layout diagram
            = Inl (Error (''Dagre layout failed (ArchiMate diagram): '' @ message))"
    if "dagre_layout ?g = Inl message" for message
    using that assms g0(2) by (simp add: layoutArchiMateDiagram_def)
  have returned: "\<exists>result outs. layoutArchiMateDiagram dagre_layout diagram = Inr result
             \<and> collect (map (archimatePositionRelationship (ad_relationships diagram) ?g geo) (g_edges ?g))
                 = Inr outs
             \<and> pad_relationships result = concat outs"
    if geo: "dagre_layout ?g = Inr geo" for geo
  proof -
    obtain outs where outs:
      "collect (map (archimatePositionRelationship (ad_relationships diagram) ?g geo) (g_edges ?g))
         = Inr outs"
      using archimate_relationships_total [OF g0(1) refl] by blast
    show ?thesis
      using assms g0(2) geo outs by (simp add: layoutArchiMateDiagram_def Let_def)
  qed
  show ?thesis
    using g0 thrown returned by blast
qed

lemma layoutArchiMateDiagram_returned:
  assumes "ad_elements diagram \<noteq> []"
    and "layoutArchiMateDiagram dagre_layout diagram = Inr result"
  shows "\<exists>g0 g geo outs. g_edges g0 = []
     \<and> g = addRelationshipEdges diagram (addLayerEdges diagram (presentLayers diagram) g0)
     \<and> buildArchiMateGraph diagram = Inr g
     \<and> dagre_layout g = Inr geo
     \<and> collect (map (archimatePositionRelationship (ad_relationships diagram) g geo) (g_edges g))
         = Inr outs
     \<and> pad_relationships result = concat outs"
proof -
  obtain g0 g where g: "g_edges g0 = []"
      "g = addRelationshipEdges diagram (addLayerEdges diagram (presentLayers diagram) g0)"
      "buildArchiMateGraph diagram = Inr g"
      "\<forall>message. dagre_layout g = Inl message \<longrightarrow>
          layoutArchiMateDiagram dagre_layout diagram
            = Inl (Error (''Dagre layout failed (ArchiMate diagram): '' @ message))"
      "\<forall>geo. dagre_layout g = Inr geo \<longrightarrow>
          (\<exists>result outs.
             layoutArchiMateDiagram dagre_layout diagram = Inr result
             \<and> collect (map (archimatePositionRelationship (ad_relationships diagram) g geo) (g_edges g))
                 = Inr outs
             \<and> pad_relationships result = concat outs)"
    using layoutArchiMateDiagram_cases [OF assms(1), of dagre_layout] by blast
  show ?thesis
  proof (cases "dagre_layout g")
    case (Inl message)
    with g(4) assms(2) show ?thesis by simp
  next
    case (Inr geo)
    with g(5) assms(2) obtain outs where
      "collect (map (archimatePositionRelationship (ad_relationships diagram) g geo) (g_edges g))
         = Inr outs" "pad_relationships result = concat outs"
      by auto
    with g(1,2,3) Inr show ?thesis by blast
  qed
qed

lemma archimate_output_relationship:
  assumes "g_edges g0 = []"
    and "g = addRelationshipEdges diagram (addLayerEdges diagram layers g0)"
    and "rels = ad_relationships diagram"
    and "collect (map (archimatePositionRelationship rels g' geo) (g_edges g)) = Inr outs"
    and "p \<in> set (concat outs)"
  shows "\<exists>i < length rels. \<exists>e \<in> set (g_edges g).
           \<not> el_layerEdge (snd e) \<and> fst e = (par_source p, par_target p)
           \<and> hasElement diagram (par_source p) \<and> hasElement diagram (par_target p)
           \<and> par_source p = ar_source (rels ! i) \<and> par_target p = ar_target (rels ! i)
           \<and> par_type p = ar_type (rels ! i) \<and> par_label p = ar_label (rels ! i)"
proof -
  obtain e ps where e: "e \<in> set (g_edges g)" "archimatePositionRelationship rels g' geo e = Inr ps"
      "p \<in> set ps"
    using collect_concat_member [OF assms(4,5)] by blast
  obtain i where i: "i < length rels" "el_index (snd e) = Some i" "\<not> el_layerEdge (snd e)"
      "par_source p = ar_source (rels ! i)" "par_target p = ar_target (rels ! i)"
      "par_type p = ar_type (rels ! i)" "par_label p = ar_label (rels ! i)"
    using archimatePositionRelationship_Inr [OF e(2,3)] by blast
  from archimate_edges_invariant [OF assms(1,3), of layers] e(1) assms(2)
  have "snd e = layerEdgeLabel
           \<or> (\<exists>j < length rels. snd e = archimateEdgeLabel j (rels ! j)
                \<and> fst e = (ar_source (rels ! j), ar_target (rels ! j))
                \<and> hasElement diagram (ar_source (rels ! j))
                \<and> hasElement diagram (ar_target (rels ! j)))"
    by blast
  moreover have "snd e \<noteq> layerEdgeLabel"
    using i(3) by (auto simp add: layerEdgeLabel_def)
  ultimately obtain j where j: "j < length rels" "snd e = archimateEdgeLabel j (rels ! j)"
      "fst e = (ar_source (rels ! j), ar_target (rels ! j))"
      "hasElement diagram (ar_source (rels ! j))" "hasElement diagram (ar_target (rels ! j))"
    by blast
  have "j = i"
    using i(2) j(2) by (simp add: archimateEdgeLabel_def)
  then have "\<not> el_layerEdge (snd e) \<and> fst e = (par_source p, par_target p)
           \<and> hasElement diagram (par_source p) \<and> hasElement diagram (par_target p)"
    using i j by simp
  then have "\<exists>e \<in> set (g_edges g).
           \<not> el_layerEdge (snd e) \<and> fst e = (par_source p, par_target p)
           \<and> hasElement diagram (par_source p) \<and> hasElement diagram (par_target p)
           \<and> par_source p = ar_source (rels ! i) \<and> par_target p = ar_target (rels ! i)
           \<and> par_type p = ar_type (rels ! i) \<and> par_label p = ar_label (rels ! i)"
    using e(1) i(4-7) by (intro bexI [of _ e]) simp_all
  then show ?thesis
    using i(1) by blast
qed

lemma archimate_output_length:
  assumes "g_edges g0 = []"
    and "g = addRelationshipEdges diagram (addLayerEdges diagram layers g0)"
    and "rels = ad_relationships diagram"
    and "collect (map (archimatePositionRelationship rels g' geo) (g_edges g)) = Inr outs"
  shows "length (concat outs) = length (filter (\<lambda>e. \<not> el_layerEdge (snd e)) (g_edges g))"
proof (rule collect_concat_length [OF assms(4)], rule ballI)
  fix e assume e: "e \<in> set (g_edges g)"
  from archimate_edges_invariant [OF assms(1,3), of layers] e assms(2)
  have "snd e = layerEdgeLabel
           \<or> (\<exists>j < length rels. snd e = archimateEdgeLabel j (rels ! j))"
    by blast
  then show "(el_layerEdge (snd e) \<longrightarrow> archimatePositionRelationship rels g' geo e = Inr [])
      \<and> (\<not> el_layerEdge (snd e) \<longrightarrow> (\<exists>p. archimatePositionRelationship rels g' geo e = Inr [p]))"
  proof
    assume "snd e = layerEdgeLabel"
    then have "e = (fst e, layerEdgeLabel)" by (metis prod.collapse)
    then have "archimatePositionRelationship rels g' geo e = Inr []"
      using archimatePositionRelationship_layerEdge [of rels g' geo "fst e"] by simp
    moreover have "el_layerEdge (snd e)"
      using \<open>snd e = layerEdgeLabel\<close> by (simp add: layerEdgeLabel_def)
    ultimately show ?thesis by simp
  next
    assume "\<exists>j < length rels. snd e = archimateEdgeLabel j (rels ! j)"
    then obtain j where j: "j < length rels" "snd e = archimateEdgeLabel j (rels ! j)" by blast
    then have "e = ((fst (fst e), snd (fst e)), archimateEdgeLabel j (rels ! j))"
      by (metis prod.collapse)
    then have "\<exists>p. archimatePositionRelationship rels g' geo e = Inr [p]"
      using archimatePositionRelationship_real [OF j(1), of g' geo "fst (fst e)" "snd (fst e)"]
      by auto
    moreover have "\<not> el_layerEdge (snd e)"
      using j(2) by (simp add: archimateEdgeLabel_def)
    ultimately show ?thesis by simp
  qed
qed

text \<open>
  Claim C9. Every relationship that an ArchiMate layout returns is an input relationship:
  it has the source, target, type and label of the relationship at some index of the input
  list. The graph that is handed to the layout engine holds the ordering edges, tagged
  \<open>_layerEdge\<close>; the output has one entry for each edge of that graph without the tag,
  running between the end points of such an edge, and none for a tagged edge. The output
  record has no field for the tag.
\<close>

theorem ordering_edges_not_in_output:
  assumes "layoutArchiMateDiagram dagre_layout diagram = Inr result"
    and "rels = ad_relationships diagram"
  shows "(\<forall>p \<in> set (pad_relationships result).
            \<exists>i < length rels.
              par_source p = ar_source (rels ! i) \<and> par_target p = ar_target (rels ! i)
              \<and> par_type p = ar_type (rels ! i) \<and> par_label p = ar_label (rels ! i))
    \<and> (ad_elements diagram \<noteq> [] \<longrightarrow>
          (\<exists>g. buildArchiMateGraph diagram = Inr g
             \<and> length (pad_relationships result)
                 = length (filter (\<lambda>e. \<not> el_layerEdge (snd e)) (g_edges g))
             \<and> (\<forall>p \<in> set (pad_relationships result).
                   \<exists>e \<in> set (g_edges g).
                     \<not> el_layerEdge (snd e) \<and> fst e = (par_source p, par_target p))))"
proof (cases "ad_elements diagram = []")
  case True
  with assms(1) have "pad_relationships result = []"
    by (auto simp add: layoutArchiMateDiagram_def)
  with True show ?thesis by simp
next
  case False
  obtain g0 g geo outs where g: "g_edges g0 = []"
      "g = addRelationshipEdges diagram (addLayerEdges diagram (presentLayers diagram) g0)"
      "buildArchiMateGraph diagram = Inr g"
      "collect (map (archimatePositionRelationship rels g geo) (g_edges g)) = Inr outs"
      "pad_relationships result = concat outs"
    using layoutArchiMateDiagram_returned [OF False assms(1)] assms(2) by blast
  have each: "\<exists>i < length rels. \<exists>e \<in> set (g_edges g).
           \<not> el_layerEdge (snd e) \<and> fst e = (par_source p, par_target p)
           \<and> hasElement diagram (par_source p) \<and> hasElement diagram (par_target p)
           \<and> par_source p = ar_source (rels ! i) \<and> par_target p = ar_target (rels ! i)
           \<and> par_type p = ar_type (rels ! i) \<and> par_label p = ar_label (rels ! i)"
    if "p \<in> set (pad_relationships result)" for p
    using archimate_output_relationship [OF g(1,2) assms(2) g(4)] that g(5) by simp
  have len: "length (pad_relationships result)
      = length (filter (\<lambda>e. \<not> el_layerEdge (snd e)) (g_edges g))"
    using archimate_output_length [OF g(1,2) assms(2) g(4)] g(5) by simp
  have first: "\<forall>p \<in> set (pad_relationships result).
            \<exists>i < length rels.
              par_source p = ar_source (rels ! i) \<and> par_target p = ar_target (rels ! i)
              \<and> par_type p = ar_type (rels ! i) \<and> par_label p = ar_label (rels ! i)"
    using each by blast
  have second: "\<forall>p \<in> set (pad_relationships result).
                   \<exists>e \<in> set (g_edges g).
                     \<not> el_layerEdge (snd e) \<and> fst e = (par_source p, par_target p)"
    using each by blast
  show ?thesis
    using first second len g(3) by blast
qed

text \<open>
  Witness for C9: \<open>crmDiagram\<close>. Its graph has the ordering edge from \<open>cust\<close> to \<open>crm\<close>
  and two real edges; the layout returns the two real relationships.
\<close>

theorem ordering_edges_not_in_output_witness:
  "layoutArchiMateDiagram crmDagre crmDiagram = Inr crmResult
   \<and> ad_elements crmDiagram \<noteq> []
   \<and> buildArchiMateGraph crmDiagram = Inr crmGraph
   \<and> map fst (g_edges crmGraph) = [(''cust'', ''crm''), (''cust'', ''billing''), (''crm'', ''billing'')]
   \<and> map (\<lambda>e. el_layerEdge (snd e)) (g_edges crmGraph) = [True, False, False]
   \<and> length (filter (\<lambda>e. \<not> el_layerEdge (snd e)) (g_edges crmGraph)) = 2
   \<and> length (pad_relationships crmResult) = 2
   \<and> map (\<lambda>p. (par_source p, par_target p)) (pad_relationships crmResult)
       = [(''cust'', ''billing''), (''crm'', ''billing'')]
   \<and> map (\<lambda>r. (ar_source r, ar_target r)) (ad_relationships crmDiagram)
       = [(''cust'', ''billing''), (''crm'', ''billing''), (''cust'', ''ghost'')]"
  using ordering_edges_not_in_output [OF crmLayout refl]
  by (simp add: crmFacts crmGraph_built crmLayout) (simp add: crmGraph_def crmResult_def layerEdgeLabel_def)

section \<open>Where layout errors come from\<close>

text \<open>
  Claim C1, as the code has it. For a diagram with elements, when the layout engine throws
  on the graph that was built, the layout throws
  \<open>Dagre layout failed (C4 diagram): \<close> or \<open>Dagre layout failed (ArchiMate diagram): \<close>
  followed by the message of the engine, and returns nothing. The ArchiMate layout skips a
  relationship whose source or target is not an element before the graph library sees it:
  every edge of its graph is an ordering edge or joins two elements, the layout returns
  whenever the engine returns, and every returned relationship joins two elements.
\<close>

theorem layout_wraps_library_errors:
  "(d_elements c4 \<noteq> [] \<longrightarrow>
      (\<exists>g. buildC4Graph c4 = Inr g
         \<and> (\<forall>message. c4_dagre g = Inl message \<longrightarrow>
               layoutC4Diagram c4_dagre c4
                 = Inl (Error (''Dagre layout failed (C4 diagram): '' @ message)))))
   \<and> (ad_elements archimate \<noteq> [] \<longrightarrow>
      (\<exists>g. buildArchiMateGraph archimate = Inr g
         \<and> (\<forall>e \<in> set (g_edges g).
               el_layerEdge (snd e)
               \<or> (hasElement archimate (fst (fst e)) \<and> hasElement archimate (snd (fst e))))
         \<and> (\<forall>message. archimate_dagre g = Inl message \<longrightarrow>
               layoutArchiMateDiagram archimate_dagre archimate
                 = Inl (Error (''Dagre layout failed (ArchiMate diagram): '' @ message)))
         \<and> (\<forall>geo. archimate_dagre g = Inr geo \<longrightarrow>
               (\<exists>result. layoutArchiMateDiagram archimate_dagre archimate = Inr result
                  \<and> (\<forall>p \<in> set (pad_relationships result).
                        hasElement archimate (par_source p)
                        \<and> hasElement archimate (par_target p))))))"
proof (intro conjI impI)
  assume nonempty: "d_elements c4 \<noteq> []"
  obtain g0 where g0: "g_edges g0 = []"
      "buildC4Graph c4 = Inr (c4AddEdges (d_relationships c4) g0)"
      "\<forall>message. c4_dagre (c4AddEdges (d_relationships c4) g0) = Inl message \<longrightarrow>
          layoutC4Diagram c4_dagre c4
            = Inl (Error (''Dagre layout failed (C4 diagram): '' @ message))"
      "\<forall>geo. c4_dagre (c4AddEdges (d_relationships c4) g0) = Inr geo \<longrightarrow>
          (\<exists>result.
             layoutC4Diagram c4_dagre c4 = Inr result
             \<and> collect (map (c4PositionRelationship (d_relationships c4)
                               (c4AddEdges (d_relationships c4) g0) geo)
                          (g_edges (c4AddEdges (d_relationships c4) g0)))
                 = Inr (pd_relationships result))"
    using layoutC4Diagram_cases [OF nonempty, of c4_dagre] by blast
  show "\<exists>g. buildC4Graph c4 = Inr g
         \<and> (\<forall>message. c4_dagre g = Inl message \<longrightarrow>
               layoutC4Diagram c4_dagre c4
                 = Inl (Error (''Dagre layout failed (C4 diagram): '' @ message)))"
    using g0(2,3) by blast
next
  assume nonempty: "ad_elements archimate \<noteq> []"
  obtain g0 g where g: "g_edges g0 = []"
      "g = addRelationshipEdges archimate (addLayerEdges archimate (presentLayers archimate) g0)"
      "buildArchiMateGraph archimate = Inr g"
      "\<forall>message. archimate_dagre g = Inl message \<longrightarrow>
          layoutArchiMateDiagram archimate_dagre archimate
            = Inl (Error (''Dagre layout failed (ArchiMate diagram): '' @ message))"
      "\<forall>geo. archimate_dagre g = Inr geo \<longrightarrow>
          (\<exists>result outs.
             layoutArchiMateDiagram archimate_dagre archimate = Inr result
             \<and> collect (map (archimatePositionRelationship (ad_relationships archimate) g geo) (g_edges g))
                 = Inr outs
             \<and> pad_relationships result = concat outs)"
    using layoutArchiMateDiagram_cases [OF nonempty, of archimate_dagre] by blast
  have edges: "el_layerEdge (snd e)
               \<or> (hasElement archimate (fst (fst e)) \<and> hasElement archimate (snd (fst e)))"
    if "e \<in> set (g_edges g)" for e
  proof -
    from archimate_edges_invariant [OF g(1) refl, of archimate "presentLayers archimate"] that g(2)
    have "snd e = layerEdgeLabel
           \<or> (\<exists>i < length (ad_relationships archimate).
                  fst e = (ar_source (ad_relationships archimate ! i),
                           ar_target (ad_relationships archimate ! i))
                \<and> hasElement archimate (ar_source (ad_relationships archimate ! i))
                \<and> hasElement archimate (ar_target (ad_relationships archimate ! i)))"
      by blast
    then show ?thesis
      by (auto simp add: layerEdgeLabel_def)
  qed
  have returned: "\<exists>result. layoutArchiMateDiagram archimate_dagre archimate = Inr result
                  \<and> (\<forall>p \<in> set (pad_relationships result).
                        hasElement archimate (par_source p)
                        \<and> hasElement archimate (par_target p))"
    if geo: "archimate_dagre g = Inr geo" for geo
  proof -
    from g(5) geo obtain result outs where r:
      "layoutArchiMateDiagram archimate_dagre archimate = Inr result"
      "collect (map (archimatePositionRelationship (ad_relationships archimate) g geo) (g_edges g))
         = Inr outs"
      "pad_relationships result = concat outs"
      by blast
    have "hasElement archimate (par_source p) \<and> hasElement archimate (par_target p)"
      if "p \<in> set (pad_relationships result)" for p
      using archimate_output_relationship [OF g(1,2) refl r(2), of p] that r(3) by auto
    with r(1) show ?thesis by blast
  qed
  show "\<exists>g. buildArchiMateGraph archimate = Inr g
         \<and> (\<forall>e \<in> set (g_edges g).
               el_layerEdge (snd e)
               \<or> (hasElement archimate (fst (fst e)) \<and> hasElement archimate (snd (fst e))))
         \<and> (\<forall>message. archimate_dagre g = Inl message \<longrightarrow>
               layoutArchiMateDiagram archimate_dagre archimate
                 = Inl (Error (''Dagre layout failed (ArchiMate diagram): '' @ message)))
         \<and> (\<forall>geo. archimate_dagre g = Inr geo \<longrightarrow>
               (\<exists>result. layoutArchiMateDiagram archimate_dagre archimate = Inr result
                  \<and> (\<forall>p \<in> set (pad_relationships result).
                        hasElement archimate (par_source p)
                        \<and> hasElement archimate (par_target p))))"
    using g(3,4) edges returned by blast
qed

text \<open>
  Witness for C1: \<open>ordersDiagram\<close> and \<open>crmDiagram\<close> with a layout engine that throws
  \<open>boom\<close>, and \<open>crmDiagram\<close> with one that returns a geometry.
\<close>

theorem layout_wraps_library_errors_witness:
  "d_elements ordersDiagram \<noteq> []
   \<and> buildC4Graph ordersDiagram = Inr ordersGraph
   \<and> throwingDagre ordersGraph = Inl ''boom''
   \<and> layoutC4Diagram throwingDagre ordersDiagram
       = Inl (Error ''Dagre layout failed (C4 diagram): boom'')
   \<and> ad_elements crmDiagram \<noteq> []
   \<and> buildArchiMateGraph crmDiagram = Inr crmGraph
   \<and> map (\<lambda>e. el_layerEdge (snd e)) (g_edges crmGraph) = [True, False, False]
   \<and> hasElement crmDiagram ''cust'' \<and> hasElement crmDiagram ''billing''
   \<and> hasElement crmDiagram ''crm''
   \<and> throwingDagre crmGraph = Inl ''boom''
   \<and> layoutArchiMateDiagram throwingDagre crmDiagram
       = Inl (Error ''Dagre layout failed (ArchiMate diagram): boom'')
   \<and> crmDagre crmGraph = Inr crmGeometry
   \<and> layoutArchiMateDiagram crmDagre crmDiagram = Inr crmResult
   \<and> map (\<lambda>p. (par_source p, par_target p)) (pad_relationships crmResult)
       = [(''cust'', ''billing''), (''crm'', ''billing'')]"
  using layout_wraps_library_errors [of ordersDiagram throwingDagre crmDiagram throwingDagre]
    layout_wraps_library_errors [of ordersDiagram throwingDagre crmDiagram crmDagre]
  by (simp add: ordersFacts crmFacts ordersGraph_built crmGraph_built throwingDagre_def
      crmLayout crmDagre_def)

text \<open>
  Counterexample to C1 as stated: the third relationship of \<open>crmDiagram\<close> points to
  \<open>ghost\<close>, which is no element. The ArchiMate layout neither throws nor keeps it: the graph
  has no edge for it, the layout returns, and the result holds the other two relationships.
\<close>

theorem unknown_endpoint_silently_dropped:
  "ar_target (ad_relationships crmDiagram ! 2) = ''ghost''
   \<and> \<not> hasElement crmDiagram ''ghost''
   \<and> buildArchiMateGraph crmDiagram = Inr crmGraph
   \<and> map fst (g_edges crmGraph) = [(''cust'', ''crm''), (''cust'', ''billing''), (''crm'', ''billing'')]
   \<and> layoutArchiMateDiagram crmDagre crmDiagram = Inr crmResult
   \<and> map (\<lambda>p. (par_source p, par_target p)) (pad_relationships crmResult)
       = [(''cust'', ''billing''), (''crm'', ''billing'')]"
  by (simp add: crmFacts crmGraph_built crmLayout) (simp add: crmDiagram_def)

section \<open>The canvas and the boundaries\<close>

text \<open>
  Claim C5 at a concrete diagram: one container inside one boundary. The layout engine puts
  the box of the container at the margins, (40, 40); the boundary around it starts
  30 + 28 above, at y = -18, outside the canvas \<open>[0, 359.36] \<times> [0, 190]\<close> that the layout
  returns.
\<close>

theorem gateway_boundary_above_canvas:
  "buildC4Graph gatewayDiagram = Inr gatewayGraph
   \<and> singleNodeDagre gatewayGraph = Inr gatewayGeometry
   \<and> layoutC4Diagram singleNodeDagre gatewayDiagram = Inr gatewayResult
   \<and> pd_boundaries gatewayResult = [platformPositioned]
   \<and> pd_width gatewayResult = 359.36 \<and> pd_height gatewayResult = 190
   \<and> pb_y platformPositioned = - 18
   \<and> \<not> boundaryInCanvas gatewayResult platformPositioned"
  using gatewayLayout
  by (simp add: gatewayResult_def platformPositioned_def boundaryInCanvas_def)

section \<open>Orthogonal edge paths\<close>

lemma orthogonalStep_iff: "orthogonalStep p q \<longleftrightarrow> px p = px q \<or> py p = py q"
  by (auto simp add: orthogonalStep_def)

lemma orthogonalStep_sym: "orthogonalStep p q = orthogonalStep q p"
  by (auto simp add: orthogonalStep_iff)

























section \<open>Boundaries contain their members\<close>

lemma fold_min_le_start: "fold (\<lambda>r (m::real). min m (f r)) xs a \<le> a"
proof (induction xs arbitrary: a)
  case Nil
  then show ?case by simp
next
  case (Cons x xs)
  have "fold (\<lambda>r m. min m (f r)) xs (min a (f x)) \<le> min a (f x)"
    by (rule Cons.IH)
  then show ?case by simp
qed

lemma fold_min_le_member: "r \<in> set xs \<Longrightarrow> fold (\<lambda>r (m::real). min m (f r)) xs a \<le> f r"
proof (induction xs arbitrary: a)
  case Nil
  then show ?case by simp
next
  case (Cons x xs)
  show ?case
  proof (cases "r = x")
    case True
    have "fold (\<lambda>r m. min m (f r)) xs (min a (f x)) \<le> min a (f x)"
      by (rule fold_min_le_start)
    with True show ?thesis by simp
  next
    case False
    with Cons show ?thesis by simp
  qed
qed

lemma fold_max_ge_start: "a \<le> fold (\<lambda>r (m::real). max m (f r)) xs a"
proof (induction xs arbitrary: a)
  case Nil
  then show ?case by simp
next
  case (Cons x xs)
  have "max a (f x) \<le> fold (\<lambda>r m. max m (f r)) xs (max a (f x))"
    by (rule Cons.IH)
  then show ?case by simp
qed

lemma fold_max_ge_member: "r \<in> set xs \<Longrightarrow> f r \<le> fold (\<lambda>r (m::real). max m (f r)) xs a"
proof (induction xs arbitrary: a)
  case Nil
  then show ?case by simp
next
  case (Cons x xs)
  show ?case
  proof (cases "r = x")
    case True
    have "max a (f x) \<le> fold (\<lambda>r m. max m (f r)) xs (max a (f x))"
      by (rule fold_max_ge_start)
    with True show ?thesis by simp
  next
    case False
    with Cons show ?thesis by simp
  qed
qed

lemma wrapRects_children: "pb_children (wrapRects a l k children rects) = children"
  by (simp add: wrapRects_def Let_def split: list.splits)

lemma wrapRects_padded:
  assumes "rect \<in> set rects"
  shows "paddedInside (wrapRects a l k children rects) rect"
proof (cases rects)
  case Nil
  with assms show ?thesis by simp
next
  case (Cons r0 rest)
  have x: "fold (\<lambda>r m. min m (rc_x r)) rest (rc_x r0) \<le> rc_x rect"
    using assms Cons fold_min_le_start [of rc_x rest "rc_x r0"] fold_min_le_member [of rect rest rc_x "rc_x r0"]
    by auto
  have y: "fold (\<lambda>r m. min m (rc_y r)) rest (rc_y r0) \<le> rc_y rect"
    using assms Cons fold_min_le_start [of rc_y rest "rc_y r0"] fold_min_le_member [of rect rest rc_y "rc_y r0"]
    by auto
  have r: "rc_right rect \<le> fold (\<lambda>r m. max m (rc_right r)) rest (rc_right r0)"
    using assms Cons fold_max_ge_start [of "rc_right r0" rc_right rest]
      fold_max_ge_member [of rect rest rc_right "rc_right r0"]
    by auto
  have b: "rc_bottom rect \<le> fold (\<lambda>r m. max m (rc_bottom r)) rest (rc_bottom r0)"
    using assms Cons fold_max_ge_start [of "rc_bottom r0" rc_bottom rest]
      fold_max_ge_member [of rect rest rc_bottom "rc_bottom r0"]
    by auto
  show ?thesis
    using x y r b
    by (simp add: Cons wrapRects_def Let_def paddedInside_def C4_boundaryPadding_def
        C4_boundaryHeaderHeight_def)
qed

lemma elementRect_in_elementRects:
  assumes "element \<in> set elements" and "elementLookup (e_alias element) = Some pos"
  shows "elementRect pos \<in> set (elementRects elements elementLookup)"
  using assms by (force simp add: elementRects_def elementRect_def)

lemma layoutBoundary_children:
  "pb_children (layoutBoundary elementLookup b)
     = map (layoutBoundary elementLookup) (b_childBoundaries b)"
  by (cases b) (simp add: Let_def wrapRects_children)

lemma layoutBoundary_padded_element:
  assumes "element \<in> set (b_elements b)" and "elementLookup (e_alias element) = Some pos"
  shows "paddedInside (layoutBoundary elementLookup b) (elementRect pos)"
proof (cases b)
  case (C4Boundary a l k elements childBoundaries parent)
  with assms have "elementRect pos \<in> set (elementRects elements elementLookup)"
    by (simp add: elementRect_in_elementRects)
  then show ?thesis
    by (simp add: C4Boundary Let_def wrapRects_padded)
qed

lemma layoutBoundary_padded_child:
  assumes "child \<in> set (pb_children (layoutBoundary elementLookup b))"
  shows "paddedInside (layoutBoundary elementLookup b) (boundaryRect child)"
proof (cases b)
  case (C4Boundary a l k elements childBoundaries parent)
  with assms have "child \<in> set (map (layoutBoundary elementLookup) childBoundaries)"
    by (simp add: Let_def wrapRects_children)
  then have "boundaryRect child \<in> set (elementRects elements elementLookup
               @ map boundaryRect (map (layoutBoundary elementLookup) childBoundaries))"
    by auto
  then show ?thesis
    unfolding C4Boundary layoutBoundary.simps Let_def by (rule wrapRects_padded)
qed

lemma flattenBoundary_layoutBoundary:
  "flattenBoundary (layoutBoundary elementLookup b)
     = map (layoutBoundary elementLookup) (subBoundaries b)"
proof (induction b rule: subBoundaries.induct)
  case (1 a l k elements childBoundaries parent)
  let ?b = "C4Boundary a l k elements childBoundaries parent"
  obtain a' l' k' x y w h cs where pb: "layoutBoundary elementLookup ?b = PositionedC4Boundary a' l' k' x y w h cs"
    by (cases "layoutBoundary elementLookup ?b") auto
  have cs: "cs = map (layoutBoundary elementLookup) childBoundaries"
    using layoutBoundary_children [of elementLookup ?b] pb by simp
  have "concat (map flattenBoundary cs)
        = concat (map (\<lambda>c. map (layoutBoundary elementLookup) (subBoundaries c)) childBoundaries)"
    unfolding cs map_map comp_def using 1 by (auto intro!: arg_cong [where f = concat] map_cong)
  also have "\<dots> = map (layoutBoundary elementLookup) (concat (map subBoundaries childBoundaries))"
    by (simp add: map_concat comp_def)
  finally have "flattenBoundary (PositionedC4Boundary a' l' k' x y w h cs)
      = PositionedC4Boundary a' l' k' x y w h cs
        # map (layoutBoundary elementLookup) (concat (map subBoundaries childBoundaries))"
    by simp
  then show ?case
    unfolding pb [symmetric] by simp
qed

lemma flattenBoundaries_layoutBoundaries:
  "flattenBoundaries (layoutBoundaries boundaries elementLookup)
     = map (layoutBoundary elementLookup) (concat (map subBoundaries boundaries))"
  by (simp add: flattenBoundaries_def layoutBoundaries_def map_concat comp_def
      flattenBoundary_layoutBoundary)

lemma fold_lookup_Some:
  assumes "fold (\<lambda>el m. m(pe_alias el \<mapsto> el)) pes m a = Some pos"
  shows "(pos \<in> set pes \<and> pe_alias pos = a) \<or> m a = Some pos"
  using assms
proof (induction pes arbitrary: m)
  case Nil
  then show ?case by simp
next
  case (Cons pe pes)
  from Cons.IH [of "m(pe_alias pe \<mapsto> pe)"] Cons.prems
  have "(pos \<in> set pes \<and> pe_alias pos = a) \<or> (m(pe_alias pe \<mapsto> pe)) a = Some pos"
    by simp
  then show ?case
    by (auto split: if_splits)
qed

lemma fold_lookup_defined:
  assumes "a \<in> pe_alias ` set pes \<or> m a \<noteq> None"
  shows "fold (\<lambda>el m. m(pe_alias el \<mapsto> el)) pes m a \<noteq> None"
  using assms
proof (induction pes arbitrary: m)
  case Nil
  then show ?case by simp
next
  case (Cons pe pes)
  have "a \<in> pe_alias ` set pes \<or> (m(pe_alias pe \<mapsto> pe)) a \<noteq> None"
    using Cons.prems by auto
  then show ?case
    using Cons.IH [of "m(pe_alias pe \<mapsto> pe)"] by simp
qed

lemma c4ElementLookup_Some:
  "c4ElementLookup pes a = Some pos \<Longrightarrow> pos \<in> set pes \<and> pe_alias pos = a"
  using fold_lookup_Some [of pes Map.empty a pos] by (simp add: c4ElementLookup_def)

lemma c4ElementLookup_defined:
  "pe \<in> set pes \<Longrightarrow> \<exists>pos. c4ElementLookup pes (pe_alias pe) = Some pos"
  using fold_lookup_defined [of "pe_alias pe" pes Map.empty] by (auto simp add: c4ElementLookup_def)

lemma c4PositionElement_Inr:
  assumes "c4PositionElement g geo e = Inr pe"
  shows "pe_alias pe = e_alias e
    \<and> (\<exists>n. node g (pe_alias pe) = Some n
          \<and> pe_x pe = node_x geo (pe_alias pe) - nl_width n / 2
          \<and> pe_y pe = node_y geo (pe_alias pe) - nl_height n / 2
          \<and> pe_width pe = nl_width n \<and> pe_height pe = nl_height n)"
  using assms
  by (auto simp add: c4PositionElement_def Let_def centerToTopLeft_def split: option.splits)

lemma positioned_elements:
  assumes "collect (map (c4PositionElement g geo) es) = Inr pes"
  shows "map pe_alias pes = map e_alias es
    \<and> (\<forall>pe \<in> set pes. \<forall>pos \<in> set pes.
          pe_alias pos = pe_alias pe \<longrightarrow> elementRect pos = elementRect pe)"
proof -
  have len: "length pes = length es"
    and nth: "\<And>n. n < length es \<Longrightarrow> c4PositionElement g geo (es ! n) = Inr (pes ! n)"
    using collect_map_Inr [OF assms] by simp_all
  have aliases: "map pe_alias pes = map e_alias es"
  proof (rule nth_equalityI)
    show "length (map pe_alias pes) = length (map e_alias es)"
      using len by simp
  next
    fix i
    assume "i < length (map pe_alias pes)"
    then have "i < length es" using len by simp
    then show "map pe_alias pes ! i = map e_alias es ! i"
      using nth [of i] len c4PositionElement_Inr [of g geo "es ! i" "pes ! i"] by simp
  qed
  have placed: "\<exists>n. node g (pe_alias pe) = Some n
          \<and> pe_x pe = node_x geo (pe_alias pe) - nl_width n / 2
          \<and> pe_y pe = node_y geo (pe_alias pe) - nl_height n / 2
          \<and> pe_width pe = nl_width n \<and> pe_height pe = nl_height n"
    if "pe \<in> set pes" for pe
  proof -
    from that obtain n where "n < length pes" "pe = pes ! n"
      by (auto simp add: in_set_conv_nth)
    then have "c4PositionElement g geo (es ! n) = Inr pe"
      using nth [of n] len by simp
    then show ?thesis
      by (rule c4PositionElement_Inr [THEN conjunct2])
  qed
  have "elementRect pos = elementRect pe"
    if "pe \<in> set pes" "pos \<in> set pes" "pe_alias pos = pe_alias pe" for pe pos
    using placed [OF that(1)] placed [OF that(2)] that(3)
    by (auto simp add: elementRect_def)
  with aliases show ?thesis by blast
qed

lemma layoutC4Diagram_parts:
  assumes "layoutC4Diagram dagre_layout diagram = Inr result" and "d_elements diagram \<noteq> []"
  shows "\<exists>g geo. collect (map (c4PositionElement g geo) (d_elements diagram)) = Inr (pd_elements result)
           \<and> pd_boundaries result
               = layoutBoundaries (d_boundaries diagram) (c4ElementLookup (pd_elements result))"
  using assms
  apply (auto simp add: layoutC4Diagram_def Let_def split: sum.splits)
  apply blast
  done

text \<open>
  Claim C2. Every layout that \<open>layoutC4Diagram\<close> returns for a diagram with at least one
  element carries, as its boundaries, the layouts of the diagram's boundaries computed from
  the positioned elements of that same result, nested boundaries included. The returned
  elements are the diagram's elements in order, and the rectangle that the boundaries see
  for an alias is the rectangle of every returned element with this alias. So each returned
  boundary contains the rectangle of every returned element that is one of its direct
  members, and the rectangle of every child boundary, with a margin of at least 30 on the
  left, on the right and below, and of at least 30 + 28 above.
\<close>

theorem boundary_contains_members:
  assumes "layoutC4Diagram dagre_layout diagram = Inr result"
    and "elementLookup = c4ElementLookup (pd_elements result)"
    and "inner = concat (map subBoundaries (d_boundaries diagram))"
  shows "map pe_alias (pd_elements result) = map e_alias (d_elements diagram)
   \<and> (d_elements diagram \<noteq> [] \<longrightarrow>
        pd_boundaries result = layoutBoundaries (d_boundaries diagram) elementLookup
      \<and> flattenBoundaries (pd_boundaries result) = map (layoutBoundary elementLookup) inner)
   \<and> (\<forall>pe \<in> set (pd_elements result).
        \<exists>pos. elementLookup (pe_alias pe) = Some pos \<and> elementRect pos = elementRect pe)
   \<and> (\<forall>b \<in> set inner.
        (\<forall>element \<in> set (b_elements b). \<forall>pe \<in> set (pd_elements result).
            pe_alias pe = e_alias element \<longrightarrow>
            paddedInside (layoutBoundary elementLookup b) (elementRect pe))
      \<and> (\<forall>child \<in> set (pb_children (layoutBoundary elementLookup b)).
            paddedInside (layoutBoundary elementLookup b) (boundaryRect child)))"
proof -
  let ?pes = "pd_elements result"
  have elements: "map pe_alias ?pes = map e_alias (d_elements diagram)
      \<and> (\<forall>pe \<in> set ?pes. \<forall>pos \<in> set ?pes.
            pe_alias pos = pe_alias pe \<longrightarrow> elementRect pos = elementRect pe)"
  proof (cases "d_elements diagram = []")
    case True
    with assms(1) have "?pes = []"
      by (auto simp add: layoutC4Diagram_def)
    with True show ?thesis by simp
  next
    case False
    from layoutC4Diagram_parts [OF assms(1) False] show ?thesis
      using positioned_elements by blast
  qed
  have boundaries: "pd_boundaries result = layoutBoundaries (d_boundaries diagram) elementLookup
      \<and> flattenBoundaries (pd_boundaries result) = map (layoutBoundary elementLookup) inner"
    if "d_elements diagram \<noteq> []"
    using layoutC4Diagram_parts [OF assms(1) that] assms(2,3)
    by (auto simp add: flattenBoundaries_layoutBoundaries)
  have seen: "\<exists>pos. elementLookup (pe_alias pe) = Some pos \<and> elementRect pos = elementRect pe"
    if "pe \<in> set ?pes" for pe
  proof -
    note returned = that
    from c4ElementLookup_defined [OF returned]
    obtain pos where pos: "elementLookup (pe_alias pe) = Some pos"
      unfolding assms(2) by blast
    then have "pos \<in> set ?pes" "pe_alias pos = pe_alias pe"
      using c4ElementLookup_Some [of ?pes "pe_alias pe" pos] unfolding assms(2) by simp_all
    with elements returned have "elementRect pos = elementRect pe"
      by blast
    with pos show ?thesis by blast
  qed
  have members: "paddedInside (layoutBoundary elementLookup b) (elementRect pe)"
    if member: "element \<in> set (b_elements b)" "pe \<in> set ?pes" "pe_alias pe = e_alias element"
    for b element pe
  proof -
    from seen [OF member(2)] obtain pos
      where "elementLookup (e_alias element) = Some pos" "elementRect pos = elementRect pe"
      unfolding member(3) by blast
    with layoutBoundary_padded_element [OF member(1), of elementLookup pos] show ?thesis
      by simp
  qed
  from elements boundaries seen members layoutBoundary_padded_child show ?thesis
    by blast
qed

text \<open>
  Witness for C2: the layout of a diagram with the boundary \<open>shop\<close> around the element
  \<open>web\<close> and the boundary \<open>store\<close>, itself around the element \<open>db\<close>.
\<close>

theorem boundary_contains_members_witness:
  "layoutC4Diagram shopDagre shopDiagram = Inr shopResult
   \<and> d_elements shopDiagram \<noteq> []
   \<and> pd_elements shopResult = [webPositioned, dbPositioned]
   \<and> map e_alias (d_elements shopDiagram) = [''web'', ''db'']
   \<and> pd_boundaries shopResult = [shopPositioned]
   \<and> flattenBoundaries (pd_boundaries shopResult) = [shopPositioned, storePositioned]
   \<and> concat (map subBoundaries (d_boundaries shopDiagram)) = [shopBoundary, storeBoundary]
   \<and> layoutBoundary (c4ElementLookup (pd_elements shopResult)) shopBoundary = shopPositioned
   \<and> layoutBoundary (c4ElementLookup (pd_elements shopResult)) storeBoundary = storePositioned
   \<and> b_elements shopBoundary = [webElement]
   \<and> pe_alias webPositioned = e_alias webElement
   \<and> paddedInside shopPositioned (elementRect webPositioned)
   \<and> pb_children shopPositioned = [storePositioned]
   \<and> paddedInside shopPositioned (boundaryRect storePositioned)
   \<and> b_elements storeBoundary = [dbElement]
   \<and> pe_alias dbPositioned = e_alias dbElement
   \<and> paddedInside storePositioned (elementRect dbPositioned)"
proof -
  have layout: "layoutC4Diagram shopDagre shopDiagram = Inr shopResult"
    and lookup: "c4ElementLookup (pd_elements shopResult) = shopLookup"
    using shopDiagramLayout by simp_all
  have subs: "concat (map subBoundaries (d_boundaries shopDiagram)) = [shopBoundary, storeBoundary]"
    by (simp add: shopDiagram_def shopBoundary_def storeBoundary_def)
  have members: "b_elements shopBoundary = [webElement]" "b_elements storeBoundary = [dbElement]"
      "pb_children shopPositioned = [storePositioned]"
      "pd_elements shopResult = [webPositioned, dbPositioned]"
      "d_elements shopDiagram = [webElement, dbElement]"
      "pe_alias webPositioned = ''web''" "e_alias webElement = ''web''"
      "pe_alias dbPositioned = ''db''" "e_alias dbElement = ''db''"
    by (simp_all add: shopBoundary_def storeBoundary_def shopPositioned_def shopResult_def
        shopDiagram_def webPositioned_def webElement_def dbPositioned_def dbElement_def)
  have "d_boundaries shopDiagram = [shopBoundary]"
    by (simp add: shopDiagram_def)
  then have boundaries: "layoutBoundaries (d_boundaries shopDiagram) shopLookup = [shopPositioned]"
    by (simp add: layoutBoundaries_def shopLayout)
  show ?thesis
    using boundary_contains_members [OF layout refl refl]
    unfolding subs lookup
    by (auto simp add: layout shopLayout members boundaries)
qed

end
